theory Spec2Isabelle
  imports Complex_Main
begin

section \<open>Data model\<close>

text \<open>
  The venue layout engine works on JavaScript numbers. Coordinates, sizes and spacings
  are modelled as \<open>real\<close>; guest counts, row counts and column counts, which the code
  only ever produces with \<open>Math.floor\<close>, \<open>Math.ceil\<close> or by counting, are \<open>int\<close>.
  An optional field (\<open>clearance?\<close>, \<open>rowsPerGroup?\<close>, \<open>singleChair?\<close>) is an
  \<open>option\<close>; the idiom \<open>v || d\<close> takes the default \<open>d\<close> when the field is absent
  or zero. Fields that no computation reads (ids, names, file names) are left out.
  Where the code divides by a pitch (a unit size plus its spacing), a zero pitch gives
  \<open>Infinity\<close> or \<open>NaN\<close> in JavaScript and 0 here; the theorems about whole runs
  assume the positive pitches of a real configuration.
\<close>

text \<open>
  The venue layout engine works on JavaScript numbers. Coordinates, sizes and spacings
  are modelled as \<open>real\<close>; guest counts, row counts and column counts, which the code
  only ever produces with \<open>Math.floor\<close>, \<open>Math.ceil\<close> or by counting, are \<open>int\<close>.
  An optional field (\<open>clearance?\<close>, \<open>rowsPerGroup?\<close>, \<open>singleChair?\<close>) is an
  \<open>option\<close>; the idiom \<open>v || d\<close> takes the default \<open>d\<close> when the field is absent
  or zero. Fields that no computation reads (ids, names, file names) are left out.
\<close>

record Point =
  pt_x :: real
  pt_y :: real

record TableAreaPoints =
  topLeft :: Point
  topRight :: Point
  bottomRight :: Point
  bottomLeft :: Point

record DoorArea =
  d_topLeft :: Point
  d_topRight :: Point
  d_bottomRight :: Point
  d_bottomLeft :: Point
  clearance :: "real option"

record SingleChairConfig =
  c_width :: real
  c_height :: real
  c_spacing :: real
  c_rotation :: "real option"
  c_rowsPerGroup :: "int option"

datatype SeatingMode = Auto | TablesOnly | ChairsOnly

record TableConfig =
  width :: real
  height :: real
  chairsPerTable :: int
  tableSpacing :: real
  columnSpacing :: real
  rowsPerGroup :: "int option"
  rowGroupSpacing :: "real option"
  startX :: real
  startY :: real
  endX :: real
  endY :: real
  namedPoints :: "TableAreaPoints option"
  singleChair :: "SingleChairConfig option"
  seatingMode :: "SeatingMode option"

record Bounds =
  minX :: real
  maxX :: real
  minY :: real
  maxY :: real

text \<open>The rectangle handed to the door test: \<open>{x, y, width, height, rotation}\<close>.\<close>

record ObjectRect =
  o_x :: real
  o_y :: real
  o_width :: real
  o_height :: real
  o_rotation :: real

text \<open>A placed table or chair: \<open>{x, y, tableIndex}\<close> or \<open>{x, y, chairIndex}\<close>.\<close>

record Placed =
  p_x :: real
  p_y :: real
  p_index :: int

text \<open>\<open>v || d\<close> on an optional number: absent and zero are both falsy.\<close>

definition orDefault :: "'a::zero option \<Rightarrow> 'a \<Rightarrow> 'a" where
  "orDefault v d = (case v of None \<Rightarrow> d | Some n \<Rightarrow> if n = 0 then d else n)"

text \<open>JavaScript's \<open>%\<close>: the remainder has the sign of the dividend.\<close>

definition jsRem :: "int \<Rightarrow> int \<Rightarrow> int" where
  "jsRem a b = sgn a * (\<bar>a\<bar> mod \<bar>b\<bar>)"

section \<open>Area and door geometry\<close>

definition convertTableAreaToArray :: "TableAreaPoints \<Rightarrow> Point list" where
  "convertTableAreaToArray points =
     [topLeft points, topRight points, bottomRight points, bottomLeft points]"

text \<open>
  \<open>getPolygonBounds\<close> takes \<open>Math.min(...xs)\<close> and \<open>Math.max(...xs)\<close> over the
  corner list. Every caller passes the four corners of \<open>convertTableAreaToArray\<close>; on an
  empty array JavaScript would give infinite bounds, which the equation below does not
  cover.
\<close>

fun getPolygonBounds :: "Point list \<Rightarrow> Bounds" where
  "getPolygonBounds (p # ps) =
     \<lparr> minX = fold min (map pt_x ps) (pt_x p),
       maxX = fold max (map pt_x ps) (pt_x p),
       minY = fold min (map pt_y ps) (pt_y p),
       maxY = fold max (map pt_y ps) (pt_y p) \<rparr>"

text \<open>The raw horizontal extent of a door, as the column test computes it.\<close>

definition doorMinX :: "DoorArea \<Rightarrow> real" where
  "doorMinX door = min (min (min (pt_x (d_topLeft door)) (pt_x (d_topRight door)))
                       (pt_x (d_bottomLeft door))) (pt_x (d_bottomRight door))"

definition doorMaxX :: "DoorArea \<Rightarrow> real" where
  "doorMaxX door = max (max (max (pt_x (d_topLeft door)) (pt_x (d_topRight door)))
                       (pt_x (d_bottomLeft door))) (pt_x (d_bottomRight door))"

definition doorMinY :: "DoorArea \<Rightarrow> real" where
  "doorMinY door = min (min (min (pt_y (d_topLeft door)) (pt_y (d_topRight door)))
                       (pt_y (d_bottomRight door))) (pt_y (d_bottomLeft door))"

definition doorMaxY :: "DoorArea \<Rightarrow> real" where
  "doorMaxY door = max (max (max (pt_y (d_topLeft door)) (pt_y (d_topRight door)))
                       (pt_y (d_bottomRight door))) (pt_y (d_bottomLeft door))"

text \<open>\<open>getDoorAreaBounds\<close>: the bounding box of the four corners, grown by the clearance.\<close>

definition getDoorAreaBounds :: "DoorArea \<Rightarrow> Bounds" where
  "getDoorAreaBounds doorArea =
     (let c = orDefault (clearance doorArea) 0 in
      \<lparr> minX = doorMinX doorArea - c, maxX = doorMaxX doorArea + c,
        minY = doorMinY doorArea - c, maxY = doorMaxY doorArea + c \<rparr>)"

text \<open>
  \<open>isObjectInDoorArea\<close>: the object's \<open>x, y\<close> are read as its centre (the parameter is
  documented \<open>// Center X\<close>, \<open>// Center Y\<close>); the rotation is not used.
\<close>

definition isObjectInDoorArea :: "ObjectRect \<Rightarrow> DoorArea \<Rightarrow> bool" where
  "isObjectInDoorArea object doorArea =
     (let c = orDefault (clearance doorArea) 0;
          dMinX = doorMinX doorArea - c;
          dMaxX = doorMaxX doorArea + c;
          dMinY = doorMinY doorArea - c;
          dMaxY = doorMaxY doorArea + c;
          halfWidth = o_width object / 2;
          halfHeight = o_height object / 2;
          objMinX = o_x object - halfWidth;
          objMaxX = o_x object + halfWidth;
          objMinY = o_y object - halfHeight;
          objMaxY = o_y object + halfHeight
      in \<not> (objMaxX < dMinX \<or> objMinX > dMaxX \<or> objMaxY < dMinY \<or> objMinY > dMaxY))"

definition isObjectInAnyDoorArea :: "ObjectRect \<Rightarrow> DoorArea list \<Rightarrow> bool" where
  "isObjectInAnyDoorArea object doorAreas = list_ex (isObjectInDoorArea object) doorAreas"

text \<open>
  \<open>isPointInPolygon\<close>: even-odd ray casting over the edges \<open>(i, j)\<close> with \<open>j\<close> the
  predecessor of \<open>i\<close> (the last vertex for \<open>i = 0\<close>); any polygon that does not have
  exactly four vertices is rejected. The division is only reached when the two \<open>y\<close>
  differ.
\<close>

definition crossesEdge :: "Point \<Rightarrow> Point \<Rightarrow> Point \<Rightarrow> bool" where
  "crossesEdge point vi vj =
     (((pt_y vi > pt_y point) \<noteq> (pt_y vj > pt_y point)) \<and>
      pt_x point < (pt_x vj - pt_x vi) * (pt_y point - pt_y vi) / (pt_y vj - pt_y vi) + pt_x vi)"

fun rayCast :: "Point \<Rightarrow> Point \<Rightarrow> Point list \<Rightarrow> bool \<Rightarrow> bool" where
  "rayCast point vj [] inside = inside"
| "rayCast point vj (vi # rest) inside =
     rayCast point vi rest (if crossesEdge point vi vj then \<not> inside else inside)"

definition isPointInPolygon :: "Point \<Rightarrow> Point list \<Rightarrow> bool" where
  "isPointInPolygon point polygon =
     (if length polygon \<noteq> 4 then False else rayCast point (last polygon) polygon False)"

section \<open>The seating packer (table calculator)\<close>

definition areaBounds :: "TableConfig \<Rightarrow> Bounds" where
  "areaBounds tableConfig =
     (case namedPoints tableConfig of
        Some points \<Rightarrow> getPolygonBounds (convertTableAreaToArray points)
      | None \<Rightarrow> \<lparr> minX = startX tableConfig, maxX = endX tableConfig,
                  minY = startY tableConfig, maxY = endY tableConfig \<rparr>)"

text \<open>The column test: does the span \<open>[currentX, currentX + unitWidth]\<close> overlap the door?\<close>

definition columnOverlaps :: "real \<Rightarrow> real \<Rightarrow> DoorArea \<Rightarrow> bool" where
  "columnOverlaps currentX unitWidth door =
     (currentX < doorMaxX door \<and> currentX + unitWidth > doorMinX door)"

definition columnOverlapsDoor :: "real \<Rightarrow> real \<Rightarrow> DoorArea list \<Rightarrow> bool" where
  "columnOverlapsDoor currentX unitWidth doorAreas =
     list_ex (columnOverlaps currentX unitWidth) doorAreas"

text \<open>The \<open>forEach\<close> that finds the rightmost edge of the overlapping doors.\<close>

definition maxDoorEndX :: "real \<Rightarrow> real \<Rightarrow> DoorArea list \<Rightarrow> real" where
  "maxDoorEndX currentX unitWidth doorAreas =
     fold (\<lambda>door m. if columnOverlaps currentX unitWidth door then max m (doorMaxX door) else m)
          doorAreas currentX"

text \<open>The vertical offset of a row: row pitch plus one group gap per completed group.\<close>

definition rowYof :: "Bounds \<Rightarrow> real \<Rightarrow> int \<Rightarrow> real \<Rightarrow> int \<Rightarrow> real" where
  "rowYof bounds heightWithSpacing rowsPerGroup' rowGroupSpacing' row =
     minY bounds + (real_of_int row * heightWithSpacing)
       + real_of_int (row div rowsPerGroup') * rowGroupSpacing'"

text \<open>
  The mutable locals of a placement loop: the units placed so far, the running guest
  count, the next index to hand out and the column cursor. \<open>columnsPlaced\<close> is only
  used by the two \<open>...InColumns\<close> helpers.
\<close>

record PackState =
  placed :: "Placed list"
  currentGuests :: int
  nextIndex :: int
  currentX :: real
  columnsPlaced :: int

text \<open>The raw result \<open>{tables, chairs, actualGuests}\<close> of a placement mode.\<close>

record SeatingResult =
  r_tables :: "Placed list"
  r_chairs :: "Placed list"
  actualGuests :: int

definition packInit :: "real \<Rightarrow> PackState" where
  "packInit x0 =
     \<lparr> placed = [], currentGuests = 0, nextIndex = 0, currentX = x0, columnsPlaced = 0 \<rparr>"

definition place :: "PackState \<Rightarrow> real \<Rightarrow> int \<Rightarrow> PackState" where
  "place st rowY seats =
     st\<lparr> placed := placed st @ [\<lparr> p_x = currentX st, p_y = rowY, p_index = nextIndex st \<rparr>],
         nextIndex := nextIndex st + 1,
         currentGuests := currentGuests st + seats \<rparr>"

subsection \<open>Tables only\<close>

text \<open>
  The inner \<open>for\<close> loop of \<open>placeTablesOnly\<close> over the rows of one column: it stops at
  \<open>maxTablesPerColumn\<close> or as soon as the running guest count reaches the target.
\<close>

function tablesOnlyRows ::
  "int \<Rightarrow> TableConfig \<Rightarrow> DoorArea list \<Rightarrow> Bounds \<Rightarrow> int \<Rightarrow> int \<Rightarrow> PackState \<Rightarrow> PackState" where
  "tablesOnlyRows targetGuestCount tableConfig doorAreas bounds maxTablesPerColumn row st =
     (if row < maxTablesPerColumn \<and> currentGuests st < targetGuestCount then
        (let rowY = rowYof bounds (height tableConfig + tableSpacing tableConfig)
                      (orDefault (rowsPerGroup tableConfig) 999)
                      (orDefault (rowGroupSpacing tableConfig) 0) row;
             tableObject = \<lparr> o_x = currentX st, o_y = rowY, o_width = width tableConfig,
                             o_height = height tableConfig, o_rotation = 0 \<rparr>;
             st' = (if rowY + height tableConfig \<le> maxY bounds
                       \<and> \<not> isObjectInAnyDoorArea tableObject doorAreas
                    then place st rowY (chairsPerTable tableConfig)
                    else st)
         in tablesOnlyRows targetGuestCount tableConfig doorAreas bounds maxTablesPerColumn
              (row + 1) st')
      else st)"
  by pat_completeness auto
termination
  by (relation "measure (\<lambda>(t, c, d, b, m, row, st). nat (m - row))") auto

declare tablesOnlyRows.simps [simp del]

text \<open>
  The outer \<open>while\<close> loop of \<open>placeTablesOnly\<close>. Nothing in the code bounds the number
  of iterations (a non-positive column pitch never advances the cursor), so the loop is a
  partial function: \<open>None\<close> stands for a run that does not return.
\<close>

partial_function (option) tablesOnlyLoop ::
  "int \<Rightarrow> TableConfig \<Rightarrow> DoorArea list \<Rightarrow> Bounds \<Rightarrow> int \<Rightarrow> PackState \<Rightarrow> PackState option" where
  "tablesOnlyLoop targetGuestCount tableConfig doorAreas bounds maxTablesPerColumn st =
     (if currentGuests st < targetGuestCount
         \<and> currentX st + width tableConfig \<le> maxX bounds then
        (if columnOverlapsDoor (currentX st) (width tableConfig) doorAreas then
           tablesOnlyLoop targetGuestCount tableConfig doorAreas bounds maxTablesPerColumn
             (st\<lparr> currentX := maxDoorEndX (currentX st) (width tableConfig) doorAreas
                                + tableSpacing tableConfig \<rparr>)
         else
           (let st' = tablesOnlyRows targetGuestCount tableConfig doorAreas bounds
                        maxTablesPerColumn 0 st
            in tablesOnlyLoop targetGuestCount tableConfig doorAreas bounds maxTablesPerColumn
                 (st'\<lparr> currentX := currentX st'
                          + (width tableConfig + columnSpacing tableConfig) \<rparr>)))
      else Some st)"

definition maxTablesPerColumnOf :: "TableConfig \<Rightarrow> Bounds \<Rightarrow> int" where
  "maxTablesPerColumnOf tableConfig bounds =
     \<lfloor>(maxY bounds - minY bounds) / (height tableConfig + tableSpacing tableConfig)\<rfloor>"

text \<open>
  \<open>placeTablesOnlyRun\<close> is the body of \<open>placeTablesOnly\<close> up to the end of the
  \<open>while\<close> loop; it keeps the final loop state, cursor included.
\<close>

definition placeTablesOnlyRun :: "int \<Rightarrow> TableConfig \<Rightarrow> DoorArea list \<Rightarrow> PackState option" where
  "placeTablesOnlyRun targetGuestCount tableConfig doorAreas =
     (let bounds = areaBounds tableConfig
      in tablesOnlyLoop targetGuestCount tableConfig doorAreas bounds
           (maxTablesPerColumnOf tableConfig bounds) (packInit (minX bounds)))"

definition placeTablesOnly :: "int \<Rightarrow> TableConfig \<Rightarrow> DoorArea list \<Rightarrow> SeatingResult option" where
  "placeTablesOnly targetGuestCount tableConfig doorAreas =
     map_option (\<lambda>st. \<lparr> r_tables = placed st, r_chairs = [], actualGuests = currentGuests st \<rparr>)
       (placeTablesOnlyRun targetGuestCount tableConfig doorAreas)"

subsection \<open>Chairs only\<close>

text \<open>
  The largest number of chair rows in a column, as \<open>placeChairsOnly\<close> and
  \<open>placeSmartMix\<close> compute it: whole groups of \<open>rowsPerGroup\<close> rows plus the rows that
  fit in the rest, then cut back to a multiple of the chair's \<open>rowsPerGroup\<close>.
\<close>

definition rawChairsPerColumn :: "SingleChairConfig \<Rightarrow> TableConfig \<Rightarrow> real \<Rightarrow> int" where
  "rawChairsPerColumn chair tableConfig availableHeight =
     (let chairHeightWithSpacing = c_height chair + c_spacing chair;
          chairRowsPerGroup = orDefault (c_rowsPerGroup chair) 999;
          chairRowGroupSpacing = orDefault (rowGroupSpacing tableConfig) 0;
          chairGroupBlockHeight = real_of_int chairRowsPerGroup * chairHeightWithSpacing
                                    + chairRowGroupSpacing;
          chairFullGroups = \<lfloor>availableHeight / chairGroupBlockHeight\<rfloor>;
          chairRemainingHeight = availableHeight - real_of_int chairFullGroups * chairGroupBlockHeight;
          chairExtraRows = \<lfloor>chairRemainingHeight / chairHeightWithSpacing\<rfloor>
      in chairFullGroups * chairRowsPerGroup + chairExtraRows)"

definition roundToGroup :: "int \<Rightarrow> int \<Rightarrow> int" where
  "roundToGroup maxChairsPerColumn chairRowsPerGroup =
     (if jsRem maxChairsPerColumn chairRowsPerGroup \<noteq> 0
      then \<lfloor>real_of_int maxChairsPerColumn / real_of_int chairRowsPerGroup\<rfloor> * chairRowsPerGroup
      else maxChairsPerColumn)"

definition maxChairsPerColumnOf :: "SingleChairConfig \<Rightarrow> TableConfig \<Rightarrow> real \<Rightarrow> int" where
  "maxChairsPerColumnOf chair tableConfig availableHeight =
     roundToGroup (rawChairsPerColumn chair tableConfig availableHeight)
       (orDefault (c_rowsPerGroup chair) 999)"

function chairsOnlyRows ::
  "int \<Rightarrow> SingleChairConfig \<Rightarrow> TableConfig \<Rightarrow> DoorArea list \<Rightarrow> Bounds \<Rightarrow> int \<Rightarrow> int
     \<Rightarrow> PackState \<Rightarrow> PackState" where
  "chairsOnlyRows targetGuestCount chair tableConfig doorAreas bounds maxChairsPerColumn row st =
     (if row < maxChairsPerColumn \<and> currentGuests st < targetGuestCount then
        (let rowY = rowYof bounds (c_height chair + c_spacing chair)
                      (orDefault (c_rowsPerGroup chair) 999)
                      (orDefault (rowGroupSpacing tableConfig) 0) row;
             chairObject = \<lparr> o_x = currentX st, o_y = rowY, o_width = c_width chair,
                             o_height = c_height chair,
                             o_rotation = orDefault (c_rotation chair) 0 \<rparr>;
             st' = (if rowY + c_height chair \<le> maxY bounds
                       \<and> \<not> isObjectInAnyDoorArea chairObject doorAreas
                    then place st rowY 1
                    else st)
         in chairsOnlyRows targetGuestCount chair tableConfig doorAreas bounds maxChairsPerColumn
              (row + 1) st')
      else st)"
  by pat_completeness auto
termination
  by (relation "measure (\<lambda>(t, ch, c, d, b, m, row, st). nat (m - row))") auto

declare chairsOnlyRows.simps [simp del]

partial_function (option) chairsOnlyLoop ::
  "int \<Rightarrow> SingleChairConfig \<Rightarrow> TableConfig \<Rightarrow> DoorArea list \<Rightarrow> Bounds \<Rightarrow> int
     \<Rightarrow> PackState \<Rightarrow> PackState option" where
  "chairsOnlyLoop targetGuestCount chair tableConfig doorAreas bounds maxChairsPerColumn st =
     (if currentGuests st < targetGuestCount \<and> currentX st + c_width chair \<le> maxX bounds then
        (if columnOverlapsDoor (currentX st) (c_width chair) doorAreas then
           chairsOnlyLoop targetGuestCount chair tableConfig doorAreas bounds maxChairsPerColumn
             (st\<lparr> currentX := maxDoorEndX (currentX st) (c_width chair) doorAreas
                                + c_spacing chair \<rparr>)
         else
           (let st' = chairsOnlyRows targetGuestCount chair tableConfig doorAreas bounds
                        maxChairsPerColumn 0 st
            in chairsOnlyLoop targetGuestCount chair tableConfig doorAreas bounds
                 maxChairsPerColumn
                 (st'\<lparr> currentX := currentX st' + (c_width chair + c_spacing chair) \<rparr>)))
      else Some st)"

definition emptyResult :: SeatingResult where
  "emptyResult = \<lparr> r_tables = [], r_chairs = [], actualGuests = 0 \<rparr>"

definition placeChairsOnly :: "int \<Rightarrow> TableConfig \<Rightarrow> DoorArea list \<Rightarrow> SeatingResult option" where
  "placeChairsOnly targetGuestCount tableConfig doorAreas =
     (case singleChair tableConfig of
        None \<Rightarrow> Some emptyResult
      | Some chair \<Rightarrow>
          (let bounds = areaBounds tableConfig;
               availableHeight = maxY bounds - minY bounds;
               maxChairsPerColumn = maxChairsPerColumnOf chair tableConfig availableHeight
           in map_option
                (\<lambda>st. \<lparr> r_tables = [], r_chairs = placed st, actualGuests = currentGuests st \<rparr>)
                (chairsOnlyLoop targetGuestCount chair tableConfig doorAreas bounds
                   maxChairsPerColumn (packInit (minX bounds)))))"

subsection \<open>The column helpers of the smart mix\<close>

function tablesInColumnRows ::
  "TableConfig \<Rightarrow> DoorArea list \<Rightarrow> Bounds \<Rightarrow> int \<Rightarrow> int \<Rightarrow> real \<Rightarrow> int \<Rightarrow> PackState
     \<Rightarrow> PackState" where
  "tablesInColumnRows tableConfig doorAreas bounds maxTablesPerColumn rowsPerGroup'
       rowGroupSpacing' row st =
     (if row < maxTablesPerColumn then
        (let rowY = rowYof bounds (height tableConfig + tableSpacing tableConfig)
                      rowsPerGroup' rowGroupSpacing' row;
             tableObject = \<lparr> o_x = currentX st, o_y = rowY, o_width = width tableConfig,
                             o_height = height tableConfig, o_rotation = 0 \<rparr>;
             st' = (if currentX st + width tableConfig \<le> maxX bounds
                       \<and> rowY + height tableConfig \<le> maxY bounds
                       \<and> \<not> isObjectInAnyDoorArea tableObject doorAreas
                    then place st rowY (chairsPerTable tableConfig)
                    else st)
         in tablesInColumnRows tableConfig doorAreas bounds maxTablesPerColumn rowsPerGroup'
              rowGroupSpacing' (row + 1) st')
      else st)"
  by pat_completeness auto
termination
  by (relation "measure (\<lambda>(c, d, b, m, g, s, row, st). nat (m - row))") auto

declare tablesInColumnRows.simps [simp del]

partial_function (option) tablesInColumnsLoop ::
  "int \<Rightarrow> TableConfig \<Rightarrow> DoorArea list \<Rightarrow> Bounds \<Rightarrow> int \<Rightarrow> int \<Rightarrow> real \<Rightarrow> PackState
     \<Rightarrow> PackState option" where
  "tablesInColumnsLoop numColumns tableConfig doorAreas bounds maxTablesPerColumn rowsPerGroup'
       rowGroupSpacing' st =
     (if columnsPlaced st < numColumns \<and> currentX st + width tableConfig \<le> maxX bounds then
        (if columnOverlapsDoor (currentX st) (width tableConfig) doorAreas then
           tablesInColumnsLoop numColumns tableConfig doorAreas bounds maxTablesPerColumn
             rowsPerGroup' rowGroupSpacing'
             (st\<lparr> currentX := maxDoorEndX (currentX st) (width tableConfig) doorAreas
                                + tableSpacing tableConfig \<rparr>)
         else
           (let st' = tablesInColumnRows tableConfig doorAreas bounds maxTablesPerColumn
                        rowsPerGroup' rowGroupSpacing' 0 st
            in tablesInColumnsLoop numColumns tableConfig doorAreas bounds maxTablesPerColumn
                 rowsPerGroup' rowGroupSpacing'
                 (st'\<lparr> columnsPlaced := columnsPlaced st' + 1,
                        currentX := currentX st'
                          + (width tableConfig + columnSpacing tableConfig) \<rparr>)))
      else Some st)"

text \<open>
  \<open>placeTablesInColumns\<close> returns \<open>{tables, actualGuests}\<close> with
  \<open>actualGuests = tables.length * chairsPerTable\<close>.
\<close>

definition placeTablesInColumns ::
  "int \<Rightarrow> TableConfig \<Rightarrow> DoorArea list \<Rightarrow> Bounds \<Rightarrow> int \<Rightarrow> int \<Rightarrow> real
     \<Rightarrow> (Placed list \<times> int) option" where
  "placeTablesInColumns numColumns tableConfig doorAreas bounds maxTablesPerColumn rowsPerGroup'
       rowGroupSpacing' =
     map_option (\<lambda>st. (placed st, int (length (placed st)) * chairsPerTable tableConfig))
       (tablesInColumnsLoop numColumns tableConfig doorAreas bounds maxTablesPerColumn
          rowsPerGroup' rowGroupSpacing' (packInit (minX bounds)))"

function chairsInColumnRows ::
  "int \<Rightarrow> SingleChairConfig \<Rightarrow> TableConfig \<Rightarrow> DoorArea list \<Rightarrow> Bounds \<Rightarrow> int \<Rightarrow> int
     \<Rightarrow> PackState \<Rightarrow> PackState" where
  "chairsInColumnRows maxGuests chair tableConfig doorAreas bounds maxChairsPerColumn row st =
     (if row < maxChairsPerColumn \<and> currentGuests st < maxGuests then
        (let rowY = rowYof bounds (c_height chair + c_spacing chair)
                      (orDefault (c_rowsPerGroup chair) 999)
                      (orDefault (rowGroupSpacing tableConfig) 0) row;
             chairObject = \<lparr> o_x = currentX st, o_y = rowY, o_width = c_width chair,
                             o_height = c_height chair,
                             o_rotation = orDefault (c_rotation chair) 0 \<rparr>;
             st' = (if currentX st + c_width chair \<le> maxX bounds
                       \<and> rowY + c_height chair \<le> maxY bounds
                       \<and> \<not> isObjectInAnyDoorArea chairObject doorAreas
                    then place st rowY 1
                    else st)
         in chairsInColumnRows maxGuests chair tableConfig doorAreas bounds maxChairsPerColumn
              (row + 1) st')
      else st)"
  by pat_completeness auto
termination
  by (relation "measure (\<lambda>(t, ch, c, d, b, m, row, st). nat (m - row))") auto

declare chairsInColumnRows.simps [simp del]

partial_function (option) chairsInColumnsLoop ::
  "int \<Rightarrow> int \<Rightarrow> SingleChairConfig \<Rightarrow> TableConfig \<Rightarrow> DoorArea list \<Rightarrow> Bounds \<Rightarrow> int
     \<Rightarrow> PackState \<Rightarrow> PackState option" where
  "chairsInColumnsLoop numColumns maxGuests chair tableConfig doorAreas bounds maxChairsPerColumn
       st =
     (if columnsPlaced st < numColumns \<and> currentGuests st < maxGuests
         \<and> currentX st + c_width chair \<le> maxX bounds then
        (if columnOverlapsDoor (currentX st) (c_width chair) doorAreas then
           chairsInColumnsLoop numColumns maxGuests chair tableConfig doorAreas bounds
             maxChairsPerColumn
             (st\<lparr> currentX := maxDoorEndX (currentX st) (c_width chair) doorAreas
                                + c_spacing chair \<rparr>)
         else
           (let st' = chairsInColumnRows maxGuests chair tableConfig doorAreas bounds
                        maxChairsPerColumn 0 st
            in chairsInColumnsLoop numColumns maxGuests chair tableConfig doorAreas bounds
                 maxChairsPerColumn
                 (st'\<lparr> columnsPlaced := columnsPlaced st' + 1,
                        currentX := currentX st' + (c_width chair + c_spacing chair) \<rparr>)))
      else Some st)"

definition placeChairsInColumns ::
  "int \<Rightarrow> int \<Rightarrow> TableConfig \<Rightarrow> DoorArea list \<Rightarrow> Bounds \<Rightarrow> int \<Rightarrow> real
     \<Rightarrow> (Placed list \<times> int) option" where
  "placeChairsInColumns numColumns maxGuests tableConfig doorAreas bounds maxChairsPerColumn
       startX' =
     (case singleChair tableConfig of
        None \<Rightarrow> Some ([], 0)
      | Some chair \<Rightarrow>
          map_option (\<lambda>st. (placed st, currentGuests st))
            (chairsInColumnsLoop numColumns maxGuests chair tableConfig doorAreas bounds
               maxChairsPerColumn (packInit startX')))"

subsection \<open>Smart mix\<close>

text \<open>
  The best solution so far, \<open>{tables, chairs, actualGuests, gap}\<close>. The gap starts at
  \<open>Infinity\<close>, which is \<open>None\<close> here; \<open>gapLess g b\<close> is the test \<open>g < b.gap\<close>.
\<close>

record BestSolution =
  b_tables :: "Placed list"
  b_chairs :: "Placed list"
  b_actualGuests :: int
  gap :: "int option"

definition initialBest :: BestSolution where
  "initialBest = \<lparr> b_tables = [], b_chairs = [], b_actualGuests = 0, gap = None \<rparr>"

definition gapLess :: "int \<Rightarrow> int option \<Rightarrow> bool" where
  "gapLess g bestGap = (case bestGap of None \<Rightarrow> True | Some b \<Rightarrow> g < b)"

text \<open>The chair metrics of \<open>placeSmartMix\<close>: \<open>(maxChairsPerColumn, chairWidthWithSpacing)\<close>.\<close>

definition chairMetrics :: "TableConfig \<Rightarrow> real \<Rightarrow> int \<times> real" where
  "chairMetrics tableConfig availableHeight =
     (case singleChair tableConfig of
        None \<Rightarrow> (0, 0)
      | Some chair \<Rightarrow> (maxChairsPerColumnOf chair tableConfig availableHeight,
                       c_width chair + c_spacing chair))"

text \<open>
  \<open>Math.min(Math.ceil(remainingGuests / seatsPerChairColumn), maxChairColumnsThatFit)\<close>,
  reached only with \<open>remainingGuests > 0\<close>: with no seat in a chair column
  the quotient is \<open>Infinity\<close> and the minimum is the number of columns that fit.
\<close>

definition chairColumnsToPlaceOf :: "int \<Rightarrow> int \<Rightarrow> int \<Rightarrow> int" where
  "chairColumnsToPlaceOf remainingGuests seatsPerChairColumn maxChairColumnsThatFit =
     (if seatsPerChairColumn = 0 then maxChairColumnsThatFit
      else min \<lceil>real_of_int remainingGuests / real_of_int seatsPerChairColumn\<rceil>
               maxChairColumnsThatFit)"

text \<open>
  The chairs start right of the rightmost table:
  \<open>Math.max(...tables.map(t => t.x)) + width + Math.max(columnSpacing, spacing * 2)\<close>,
  or at the left bound when no table was placed.
\<close>

definition chairStartXOf :: "Placed list \<Rightarrow> TableConfig \<Rightarrow> SingleChairConfig \<Rightarrow> Bounds \<Rightarrow> real" where
  "chairStartXOf tTables tableConfig chair bounds =
     (case tTables of
        [] \<Rightarrow> minX bounds
      | t # ts \<Rightarrow> fold max (map p_x ts) (p_x t) + width tableConfig
                   + max (columnSpacing tableConfig) (c_spacing chair * 2))"

text \<open>
  One iteration of the \<open>for\<close> loop of \<open>placeSmartMix\<close> for the candidate
  \<open>tableColumns\<close>: the new best solution and whether the loop breaks.
\<close>

definition smartMixBody ::
  "int \<Rightarrow> TableConfig \<Rightarrow> DoorArea list \<Rightarrow> Bounds \<Rightarrow> int \<Rightarrow> int \<Rightarrow> real \<Rightarrow> int \<Rightarrow> real
     \<Rightarrow> int \<Rightarrow> BestSolution \<Rightarrow> (BestSolution \<times> bool) option" where
  "smartMixBody targetGuestCount tableConfig doorAreas bounds maxTablesPerColumn rowsPerGroup'
       rowGroupSpacing' maxChairsPerColumn chairWidthWithSpacing tableColumns bestSolution =
     (case placeTablesInColumns tableColumns tableConfig doorAreas bounds maxTablesPerColumn
             rowsPerGroup' rowGroupSpacing' of
        None \<Rightarrow> None
      | Some (tTables, tGuests) \<Rightarrow>
          (let remainingGuests = targetGuestCount - tGuests in
           if remainingGuests \<le> 0 then
             (let gap' = \<bar>tGuests - targetGuestCount\<bar> in
              Some (if gapLess gap' (gap bestSolution)
                    then \<lparr> b_tables = tTables, b_chairs = [], b_actualGuests = tGuests,
                           gap = Some gap' \<rparr>
                    else bestSolution, False))
           else
             (case singleChair tableConfig of
                None \<Rightarrow> Some (bestSolution, False)
              | Some chair \<Rightarrow>
                  (let chairStartX = chairStartXOf tTables tableConfig chair bounds;
                       spaceForChairs = maxX bounds - chairStartX;
                       maxChairColumnsThatFit = \<lfloor>spaceForChairs / chairWidthWithSpacing\<rfloor>;
                       chairColumnsToPlace = chairColumnsToPlaceOf remainingGuests
                                               maxChairsPerColumn maxChairColumnsThatFit
                   in if chairColumnsToPlace > 0 then
                        (case placeChairsInColumns chairColumnsToPlace remainingGuests tableConfig
                                doorAreas bounds maxChairsPerColumn chairStartX of
                           None \<Rightarrow> None
                         | Some (cChairs, cGuests) \<Rightarrow>
                             (let totalGuests = tGuests + cGuests;
                                  gap' = \<bar>totalGuests - targetGuestCount\<bar>
                              in Some (if gapLess gap' (gap bestSolution)
                                          \<or> b_actualGuests bestSolution < totalGuests
                                       then \<lparr> b_tables = tTables, b_chairs = cChairs,
                                              b_actualGuests = totalGuests, gap = Some gap' \<rparr>
                                       else bestSolution,
                                       totalGuests \<ge> targetGuestCount
                                         \<and> gap' \<le> chairsPerTable tableConfig)))
                      else
                        Some (if tGuests > b_actualGuests bestSolution
                              then \<lparr> b_tables = tTables, b_chairs = [], b_actualGuests = tGuests,
                                     gap = Some \<bar>tGuests - targetGuestCount\<bar> \<rparr>
                              else bestSolution, False)))))"

text \<open>The loop \<open>for (tableColumns = maxColumnsAvailable; tableColumns >= 0; tableColumns--)\<close>.\<close>

function smartMixLoop ::
  "int \<Rightarrow> BestSolution \<Rightarrow> int \<Rightarrow> TableConfig \<Rightarrow> DoorArea list \<Rightarrow> Bounds \<Rightarrow> int \<Rightarrow> int \<Rightarrow> real
     \<Rightarrow> int \<Rightarrow> real \<Rightarrow> BestSolution option" where
  "smartMixLoop tableColumns bestSolution targetGuestCount tableConfig doorAreas bounds
       maxTablesPerColumn rowsPerGroup' rowGroupSpacing' maxChairsPerColumn chairWidthWithSpacing =
     (if tableColumns \<ge> 0 then
        (case smartMixBody targetGuestCount tableConfig doorAreas bounds maxTablesPerColumn
                rowsPerGroup' rowGroupSpacing' maxChairsPerColumn chairWidthWithSpacing
                tableColumns bestSolution of
           None \<Rightarrow> None
         | Some (best', stop) \<Rightarrow>
             if stop then Some best'
             else smartMixLoop (tableColumns - 1) best' targetGuestCount tableConfig doorAreas
                    bounds maxTablesPerColumn rowsPerGroup' rowGroupSpacing' maxChairsPerColumn
                    chairWidthWithSpacing)
      else Some bestSolution)"
  by pat_completeness auto
termination
  by (relation "measure (\<lambda>(k, rest). nat (k + 1))") auto

declare smartMixLoop.simps [simp del]

definition placeSmartMix :: "int \<Rightarrow> TableConfig \<Rightarrow> DoorArea list \<Rightarrow> BestSolution option" where
  "placeSmartMix targetGuestCount tableConfig doorAreas =
     (let bounds = areaBounds tableConfig;
          tableWidthWithSpacing = width tableConfig + columnSpacing tableConfig;
          tableHeightWithSpacing = height tableConfig + tableSpacing tableConfig;
          availableWidth = maxX bounds - minX bounds;
          availableHeight = maxY bounds - minY bounds;
          rowsPerGroup' = orDefault (rowsPerGroup tableConfig) 999;
          rowGroupSpacing' = orDefault (rowGroupSpacing tableConfig) 0;
          maxTablesPerColumn = \<lfloor>availableHeight / tableHeightWithSpacing\<rfloor>;
          maxColumnsAvailable = \<lfloor>availableWidth / tableWidthWithSpacing\<rfloor>;
          maxChairsPerColumn = fst (chairMetrics tableConfig availableHeight);
          chairWidthWithSpacing = snd (chairMetrics tableConfig availableHeight)
      in case smartMixLoop maxColumnsAvailable initialBest targetGuestCount tableConfig doorAreas
                bounds maxTablesPerColumn rowsPerGroup' rowGroupSpacing' maxChairsPerColumn
                chairWidthWithSpacing of
           None \<Rightarrow> None
         | Some bestSolution \<Rightarrow>
             if b_actualGuests bestSolution = 0 \<and> maxColumnsAvailable > 0 then
               (case placeTablesInColumns maxColumnsAvailable tableConfig doorAreas bounds
                       maxTablesPerColumn rowsPerGroup' rowGroupSpacing' of
                  None \<Rightarrow> None
                | Some (fTables, fGuests) \<Rightarrow>
                    Some \<lparr> b_tables = fTables, b_chairs = [], b_actualGuests = fGuests,
                           gap = Some \<bar>fGuests - targetGuestCount\<bar> \<rparr>)
             else Some bestSolution)"

subsection \<open>The entry point\<close>

text \<open>\<open>tableConfig.seatingMode || 'auto'\<close>.\<close>

definition orDefaultMode :: "SeatingMode option \<Rightarrow> SeatingMode" where
  "orDefaultMode m = (case m of None \<Rightarrow> Auto | Some v \<Rightarrow> v)"

datatype HallObjectType = Stage | Table | Chair

record HallObject =
  h_type :: HallObjectType
  h_x :: real
  h_y :: real
  h_width :: real
  h_height :: real
  h_tableIndex :: int
  h_rotation :: real

record Arrangement =
  totalTables :: int
  totalChairs :: int
  totalSingleChairs :: int
  totalGuests :: int

definition tableObjects :: "TableConfig \<Rightarrow> Placed list \<Rightarrow> HallObject list" where
  "tableObjects tableConfig ts =
     map (\<lambda>t. \<lparr> h_type = Table, h_x = p_x t, h_y = p_y t, h_width = width tableConfig,
                 h_height = height tableConfig, h_tableIndex = p_index t, h_rotation = 0 \<rparr>) ts"

definition chairObjects :: "TableConfig \<Rightarrow> Placed list \<Rightarrow> HallObject list" where
  "chairObjects tableConfig cs =
     (case singleChair tableConfig of
        None \<Rightarrow> []
      | Some chair \<Rightarrow>
          map (\<lambda>c. \<lparr> h_type = Chair, h_x = p_x c, h_y = p_y c, h_width = c_width chair,
                      h_height = c_height chair, h_tableIndex = p_index c,
                      h_rotation = orDefault (c_rotation chair) 0 \<rparr>) cs)"

definition seatingResultOf :: "int \<Rightarrow> TableConfig \<Rightarrow> DoorArea list \<Rightarrow> SeatingResult option" where
  "seatingResultOf guestCount tableConfig doorAreas =
     (case orDefaultMode (seatingMode tableConfig) of
        TablesOnly \<Rightarrow> placeTablesOnly guestCount tableConfig doorAreas
      | ChairsOnly \<Rightarrow> placeChairsOnly guestCount tableConfig doorAreas
      | Auto \<Rightarrow> map_option (\<lambda>b. \<lparr> r_tables = b_tables b, r_chairs = b_chairs b,
                                    actualGuests = b_actualGuests b \<rparr>)
                  (placeSmartMix guestCount tableConfig doorAreas))"

definition calculateTableArrangement ::
  "int \<Rightarrow> TableConfig \<Rightarrow> DoorArea list \<Rightarrow> (HallObject list \<times> Arrangement) option" where
  "calculateTableArrangement guestCount tableConfig doorAreas =
     (if guestCount \<le> 0 then
        Some ([], \<lparr> totalTables = 0, totalChairs = 0, totalSingleChairs = 0, totalGuests = 0 \<rparr>)
      else
        map_option
          (\<lambda>seatingResult.
             (tableObjects tableConfig (r_tables seatingResult)
                @ chairObjects tableConfig (r_chairs seatingResult),
              \<lparr> totalTables = int (length (r_tables seatingResult)),
                totalChairs = int (length (r_tables seatingResult)) * chairsPerTable tableConfig,
                totalSingleChairs = int (length (r_chairs seatingResult)),
                totalGuests = actualGuests seatingResult \<rparr>))
          (seatingResultOf guestCount tableConfig doorAreas))"

section \<open>Seating in the venue configuration module\<close>

text \<open>
  \<open>calculateTablePositionsInPolygon\<close> of the venue configuration module places tables
  column by column inside the bounding box of the four points and keeps a position only
  when all four corners of the table pass \<open>isPointInPolygon\<close>. The loop state is the
  list of positions and the next \<open>tableIndex\<close>.
\<close>

function polygonRows ::
  "TableConfig \<Rightarrow> Point list \<Rightarrow> Bounds \<Rightarrow> int \<Rightarrow> int \<Rightarrow> real \<Rightarrow> int \<Rightarrow> Placed list \<times> int
     \<Rightarrow> Placed list \<times> int" where
  "polygonRows tableConfig polygon bounds tableCount maxTablesPerColumn columnX row
       (positions, tableIndex) =
     (if row < maxTablesPerColumn \<and> tableIndex < tableCount then
        (let rowY = rowYof bounds (height tableConfig + tableSpacing tableConfig)
                      (orDefault (rowsPerGroup tableConfig) 999)
                      (orDefault (rowGroupSpacing tableConfig) 0) row;
             tableCorners =
               [\<lparr> pt_x = columnX, pt_y = rowY \<rparr>,
                \<lparr> pt_x = columnX + width tableConfig, pt_y = rowY \<rparr>,
                \<lparr> pt_x = columnX, pt_y = rowY + height tableConfig \<rparr>,
                \<lparr> pt_x = columnX + width tableConfig, pt_y = rowY + height tableConfig \<rparr>];
             allCornersInside = list_all (\<lambda>corner. isPointInPolygon corner polygon) tableCorners
         in polygonRows tableConfig polygon bounds tableCount maxTablesPerColumn columnX (row + 1)
              (if columnX + width tableConfig \<le> maxX bounds
                  \<and> rowY + height tableConfig \<le> maxY bounds \<and> allCornersInside
               then (positions @ [\<lparr> p_x = columnX, p_y = rowY, p_index = tableIndex \<rparr>],
                     tableIndex + 1)
               else (positions, tableIndex)))
      else (positions, tableIndex))"
  by pat_completeness auto
termination
  by (relation "measure (\<lambda>(c, p, b, n, m, x, row, st). nat (m - row))") auto

declare polygonRows.simps [simp del]

function polygonColumns ::
  "TableConfig \<Rightarrow> Point list \<Rightarrow> Bounds \<Rightarrow> int \<Rightarrow> int \<Rightarrow> int \<Rightarrow> int \<Rightarrow> Placed list \<times> int
     \<Rightarrow> Placed list \<times> int" where
  "polygonColumns tableConfig polygon bounds tableCount maxTablesPerColumn actualColumns col
       (positions, tableIndex) =
     (if col < actualColumns \<and> tableIndex < tableCount then
        (let columnX = minX bounds
                         + real_of_int col * (width tableConfig + columnSpacing tableConfig)
         in polygonColumns tableConfig polygon bounds tableCount maxTablesPerColumn actualColumns
              (col + 1)
              (polygonRows tableConfig polygon bounds tableCount maxTablesPerColumn columnX 0
                 (positions, tableIndex)))
      else (positions, tableIndex))"
  by pat_completeness auto
termination
  by (relation "measure (\<lambda>(c, p, b, n, m, a, col, st). nat (a - col))") auto

declare polygonColumns.simps [simp del]

text \<open>
  \<open>Math.min(Math.ceil(tableCount / maxTablesPerColumn), maxColumnsAvailable)\<close>. With no
  row in a column the quotient is \<open>Infinity\<close> for a positive \<open>tableCount\<close>, and the
  minimum is \<open>maxColumnsAvailable\<close>; otherwise it is \<open>NaN\<close> or \<open>-Infinity\<close> and
  the column loop does not run, as for zero columns.
\<close>

definition actualColumnsOf :: "int \<Rightarrow> int \<Rightarrow> int \<Rightarrow> int" where
  "actualColumnsOf tableCount maxTablesPerColumn maxColumnsAvailable =
     (if maxTablesPerColumn = 0 then (if tableCount > 0 then maxColumnsAvailable else 0)
      else min \<lceil>real_of_int tableCount / real_of_int maxTablesPerColumn\<rceil> maxColumnsAvailable)"

definition calculateTablePositionsInPolygon :: "TableConfig \<Rightarrow> int \<Rightarrow> Placed list" where
  "calculateTablePositionsInPolygon tableConfig tableCount =
     (case namedPoints tableConfig of
        None \<Rightarrow> []
      | Some points \<Rightarrow>
          (let polygon = convertTableAreaToArray points;
               bounds = getPolygonBounds polygon;
               tableHeightWithSpacing = height tableConfig + tableSpacing tableConfig;
               availableWidth = maxX bounds - minX bounds;
               availableHeight = maxY bounds - minY bounds;
               maxTablesPerColumn = \<lfloor>availableHeight / tableHeightWithSpacing\<rfloor>;
               maxColumnsAvailable =
                 \<lfloor>availableWidth / (width tableConfig + columnSpacing tableConfig)\<rfloor>;
               actualColumns = actualColumnsOf tableCount maxTablesPerColumn maxColumnsAvailable
           in fst (polygonColumns tableConfig polygon bounds tableCount maxTablesPerColumn
                     actualColumns 0 ([], 0))))"

text \<open>
  Step 2 of \<open>calculateSmartSeating\<close>: the pair \<open>(maxPossibleChairs, maxChairsPerColumn)\<close>.
  The column maximum is at least 1, the capacity is taken before any rounding, and the
  rounding uses the table's \<open>rowsPerGroup\<close> (when it is set and not zero).
  \<open>calculateSingleChairPositions\<close> of the same module computes its column maximum
  as \<open>maxChairsPerColumnOf\<close> does.
\<close>

definition smartSeatingChairCapacity :: "TableConfig \<Rightarrow> real \<Rightarrow> real \<Rightarrow> int \<times> int" where
  "smartSeatingChairCapacity tableConfig availableWidth availableHeight =
     (let (maxPossibleChairs, maxChairsPerColumn) =
            (case singleChair tableConfig of
               None \<Rightarrow> (0, 1)
             | Some chair \<Rightarrow>
                 (let chairWidthWithSpacing = c_width chair + c_spacing chair;
                      perColumn = max (rawChairsPerColumn chair tableConfig availableHeight) 1;
                      maxChairColumnsAvailable = \<lfloor>availableWidth / chairWidthWithSpacing\<rfloor>
                  in (perColumn * maxChairColumnsAvailable, perColumn)))
      in (maxPossibleChairs,
          (case rowsPerGroup tableConfig of
             None \<Rightarrow> maxChairsPerColumn
           | Some r \<Rightarrow>
               if r \<noteq> 0 \<and> jsRem maxChairsPerColumn r \<noteq> 0
               then \<lfloor>real_of_int maxChairsPerColumn / real_of_int r\<rfloor> * r
               else maxChairsPerColumn)))"

section \<open>The simple DXF entity extractor\<close>

text \<open>
  A parsed DXF entity is a dynamically typed record; every field the extractor reads is
  optional here. A point has an optional \<open>z\<close>.
\<close>

record DxfPoint =
  dp_x :: real
  dp_y :: real
  dp_z :: "real option"

record DxfScale =
  sc_x :: "real option"
  sc_y :: "real option"

record Entity =
  e_type :: string
  e_vertices :: "DxfPoint list option"
  e_start :: "DxfPoint option"
  e_end :: "DxfPoint option"
  e_center :: "DxfPoint option"
  e_radius :: "real option"
  e_startAngle :: "real option"
  e_endAngle :: "real option"
  e_controlPoints :: "DxfPoint list option"
  e_name :: "string option"
  e_position :: "DxfPoint option"
  e_scale :: "DxfScale option"
  e_rotation :: "real option"
  e_layer :: "string option"
  e_color :: "string option"

text \<open>A block of the block table; \<open>b_entities\<close> may be missing.\<close>

record Block =
  b_entities :: "Entity list option"

record Dxf =
  entities :: "Entity list option"
  blocks :: "(string \<times> Block) list option"

record SimpleDxfEntity =
  se_type :: string
  se_vertices :: "DxfPoint list"
  se_layer :: "string option"
  se_color :: "string option"

record EntityTransform =
  t_x :: real
  t_y :: real
  scaleX :: real
  scaleY :: real
  rotation :: real

text \<open>\<open>String.prototype.includes\<close>.\<close>

fun strIncludes :: "string \<Rightarrow> string \<Rightarrow> bool" where
  "strIncludes [] sub = (sub = [])"
| "strIncludes (c # cs) sub = (take (length sub) (c # cs) = sub \<or> strIncludes cs sub)"

text \<open>\<open>applyTransform\<close>: scale, then rotate, then translate; no transform leaves the point.\<close>

definition applyTransform :: "DxfPoint \<Rightarrow> EntityTransform option \<Rightarrow> DxfPoint" where
  "applyTransform point transform =
     (case transform of
        None \<Rightarrow> point
      | Some tr \<Rightarrow>
          (let px = dp_x point * scaleX tr;
               py = dp_y point * scaleY tr;
               rotatedX = px * cos (rotation tr) - py * sin (rotation tr);
               rotatedY = px * sin (rotation tr) + py * cos (rotation tr)
           in \<lparr> dp_x = rotatedX + t_x tr, dp_y = rotatedY + t_y tr,
                dp_z = Some (orDefault (dp_z point) 0) \<rparr>))"

definition combineTransforms :: "EntityTransform \<Rightarrow> EntityTransform \<Rightarrow> EntityTransform" where
  "combineTransforms parent child =
     (let scaledX = t_x child * scaleX parent;
          scaledY = t_y child * scaleY parent;
          rotatedX = scaledX * cos (rotation parent) - scaledY * sin (rotation parent);
          rotatedY = scaledX * sin (rotation parent) + scaledY * cos (rotation parent)
      in \<lparr> t_x = t_x parent + rotatedX, t_y = t_y parent + rotatedY,
           scaleX = scaleX parent * scaleX child, scaleY = scaleY parent * scaleY child,
           rotation = rotation parent + rotation child \<rparr>)"

definition emit :: "string \<Rightarrow> DxfPoint list \<Rightarrow> Entity \<Rightarrow> SimpleDxfEntity" where
  "emit ty vs entity =
     \<lparr> se_type = ty, se_vertices = vs, se_layer = e_layer entity, se_color = e_color entity \<rparr>"

definition processLine ::
  "Entity \<Rightarrow> SimpleDxfEntity list \<Rightarrow> EntityTransform option \<Rightarrow> SimpleDxfEntity list" where
  "processLine entity result transform =
     (case e_vertices entity of
        Some vs \<Rightarrow>
          if length vs < 2 then
            (case (e_start entity, e_end entity) of
               (Some s, Some e) \<Rightarrow>
                 result @ [emit ''LINE'' [applyTransform s transform, applyTransform e transform]
                             entity]
             | _ \<Rightarrow> result)
          else result @ [emit ''LINE'' (map (\<lambda>v. applyTransform v transform) vs) entity]
      | None \<Rightarrow>
          (case (e_start entity, e_end entity) of
             (Some s, Some e) \<Rightarrow>
               result @ [emit ''LINE'' [applyTransform s transform, applyTransform e transform]
                           entity]
           | _ \<Rightarrow> result))"

definition processPolyline ::
  "Entity \<Rightarrow> SimpleDxfEntity list \<Rightarrow> EntityTransform option \<Rightarrow> SimpleDxfEntity list" where
  "processPolyline entity result transform =
     (case e_vertices entity of
        Some vs \<Rightarrow>
          if length vs < 2 then result
          else result @ [emit (e_type entity) (map (\<lambda>v. applyTransform v transform) vs) entity]
      | None \<Rightarrow> result)"

text \<open>
  Circles and arcs become 33 vertices (\<open>i = 0 .. 32\<close>); a missing or zero radius is
  skipped; \<open>endAngle || Math.PI * 2\<close>.
\<close>

definition curveVertices ::
  "DxfPoint \<Rightarrow> real \<Rightarrow> real \<Rightarrow> real \<Rightarrow> EntityTransform option \<Rightarrow> DxfPoint list" where
  "curveVertices center radius startAngle endAngle transform =
     map (\<lambda>i. let angle = startAngle + (real i / 32) * (endAngle - startAngle)
              in applyTransform
                   \<lparr> dp_x = dp_x center + radius * cos angle,
                     dp_y = dp_y center + radius * sin angle,
                     dp_z = Some (orDefault (dp_z center) 0) \<rparr> transform)
         [0 ..< 33]"

definition processCircle ::
  "Entity \<Rightarrow> SimpleDxfEntity list \<Rightarrow> EntityTransform option \<Rightarrow> SimpleDxfEntity list" where
  "processCircle entity result transform =
     (case (e_center entity, e_radius entity) of
        (Some c, Some r) \<Rightarrow>
          if r = 0 then result
          else result @ [emit ''CIRCLE'' (curveVertices c r 0 (pi * 2) transform) entity]
      | _ \<Rightarrow> result)"

definition processArc ::
  "Entity \<Rightarrow> SimpleDxfEntity list \<Rightarrow> EntityTransform option \<Rightarrow> SimpleDxfEntity list" where
  "processArc entity result transform =
     (case (e_center entity, e_radius entity) of
        (Some c, Some r) \<Rightarrow>
          if r = 0 then result
          else result @ [emit ''ARC''
                           (curveVertices c r (orDefault (e_startAngle entity) 0)
                              (orDefault (e_endAngle entity) (pi * 2)) transform) entity]
      | _ \<Rightarrow> result)"

definition processSpline ::
  "Entity \<Rightarrow> SimpleDxfEntity list \<Rightarrow> EntityTransform option \<Rightarrow> SimpleDxfEntity list" where
  "processSpline entity result transform =
     (case e_controlPoints entity of
        Some ps \<Rightarrow>
          if length ps < 2 then result
          else result @ [emit ''SPLINE'' (map (\<lambda>p. applyTransform p transform) ps) entity]
      | None \<Rightarrow> result)"

text \<open>The 50-fold scale for the cameraman and model blocks.\<close>

definition extraScaleOf :: "string \<Rightarrow> real" where
  "extraScaleOf name =
     (if strIncludes name ''TV_CAMERAMAN_PL'' \<or> strIncludes name ''camera_man''
         \<or> strIncludes name ''female_model'' then 50 else 1)"

text \<open>The transform that \<open>processInsert\<close> builds for one INSERT (rotation in radians).\<close>

definition insertTransform :: "bool \<Rightarrow> string \<Rightarrow> Entity \<Rightarrow> EntityTransform" where
  "insertTransform ignorePosition name entity =
     \<lparr> t_x = (if ignorePosition then 0
              else (case e_position entity of None \<Rightarrow> 0 | Some p \<Rightarrow> dp_x p)),
       t_y = (if ignorePosition then 0
              else (case e_position entity of None \<Rightarrow> 0 | Some p \<Rightarrow> dp_y p)),
       scaleX = orDefault (case e_scale entity of None \<Rightarrow> None | Some s \<Rightarrow> sc_x s) 1
                  * extraScaleOf name,
       scaleY = orDefault (case e_scale entity of None \<Rightarrow> None | Some s \<Rightarrow> sc_y s) 1
                  * extraScaleOf name,
       rotation = orDefault (e_rotation entity) 0 * pi / 180 \<rparr>"

text \<open>\<open>dxf.blocks?.[entity.name]\<close>.\<close>

definition lookupBlock :: "Dxf \<Rightarrow> string \<Rightarrow> Block option" where
  "lookupBlock dxf name = (case blocks dxf of None \<Rightarrow> None | Some bs \<Rightarrow> map_of bs name)"

text \<open>
  \<open>processEntity\<close> and \<open>processInsert\<close> call each other through the block table, and a
  block may contain an INSERT of itself: nothing bounds the recursion. The first argument
  is the number of nested calls allowed; \<open>None\<close> is a run that exceeds it.
\<close>

fun processEntity ::
  "nat \<Rightarrow> Dxf \<Rightarrow> bool \<Rightarrow> EntityTransform option \<Rightarrow> Entity \<Rightarrow> SimpleDxfEntity list
     \<Rightarrow> SimpleDxfEntity list option"
  and processBlockEntities ::
  "nat \<Rightarrow> Dxf \<Rightarrow> bool \<Rightarrow> EntityTransform option \<Rightarrow> Entity list \<Rightarrow> SimpleDxfEntity list
     \<Rightarrow> SimpleDxfEntity list option" where
  "processEntity 0 dxf ignorePosition transform entity result = None"
| "processEntity (Suc fuel) dxf ignorePosition transform entity result =
     (if e_type entity = ''LINE'' then Some (processLine entity result transform)
      else if e_type entity = ''POLYLINE'' \<or> e_type entity = ''LWPOLYLINE''
        then Some (processPolyline entity result transform)
      else if e_type entity = ''INSERT'' then
        (case e_name entity of
           None \<Rightarrow> Some result
         | Some name \<Rightarrow>
             if name = [] then Some result
             else
               (case lookupBlock dxf name of
                  None \<Rightarrow> Some result
                | Some block \<Rightarrow>
                    (case b_entities block of
                       None \<Rightarrow> Some result
                     | Some blockEntities \<Rightarrow>
                         (let transform' = insertTransform ignorePosition name entity;
                              finalTransform =
                                (case transform of
                                   None \<Rightarrow> transform'
                                 | Some parentTransform \<Rightarrow>
                                     combineTransforms parentTransform transform')
                          in processBlockEntities fuel dxf ignorePosition (Some finalTransform)
                               blockEntities result))))
      else if e_type entity = ''CIRCLE'' then Some (processCircle entity result transform)
      else if e_type entity = ''ARC'' then Some (processArc entity result transform)
      else if e_type entity = ''SPLINE'' then Some (processSpline entity result transform)
      else Some result)"
| "processBlockEntities fuel dxf ignorePosition transform [] result = Some result"
| "processBlockEntities fuel dxf ignorePosition transform (blockEntity # rest) result =
     (case processEntity fuel dxf ignorePosition transform blockEntity result of
        None \<Rightarrow> None
      | Some result' \<Rightarrow> processBlockEntities fuel dxf ignorePosition transform rest result')"

text \<open>
  The synchronous part of \<open>extractSimpleEntities\<close>: every top-level entity is processed
  with no transform.
\<close>

definition extractEntities :: "nat \<Rightarrow> Dxf \<Rightarrow> bool \<Rightarrow> SimpleDxfEntity list option" where
  "extractEntities fuel dxf ignorePosition =
     (case entities dxf of
        None \<Rightarrow> Some []
      | Some es \<Rightarrow> processBlockEntities fuel dxf ignorePosition None es [])"

section \<open>Bulge arcs\<close>

record Vector3 =
  v3_x :: real
  v3_y :: real
  v3_z :: real

text \<open>\<open>Math.atan2(y, x)\<close> on reals (signed zeros aside).\<close>

definition atan2 :: "real \<Rightarrow> real \<Rightarrow> real" where
  "atan2 y x =
     (if x > 0 then arctan (y / x)
      else if x < 0 \<and> y \<ge> 0 then arctan (y / x) + pi
      else if x < 0 \<and> y < 0 then arctan (y / x) - pi
      else if y > 0 then pi / 2
      else if y < 0 then - (pi / 2)
      else 0)"

text \<open>
  \<open>interpolateBulgePoints(v1, v2, bulge, segments = 16)\<close>. With a falsy bulge the
  result is the two end points, \<open>z\<close> defaulting to 0. Otherwise \<open>chord.multiplyScalar(0.5)\<close>
  halves the chord in place before the perpendicular is taken and normalised
  (\<open>normalize\<close> divides by \<open>length || 1\<close>); the point called \<open>center\<close> is the chord's
  midpoint moved by the sagitta, and \<open>segments + 1\<close> points are sampled around it.
\<close>

definition interpolateBulgePoints :: "DxfPoint \<Rightarrow> DxfPoint \<Rightarrow> real \<Rightarrow> nat \<Rightarrow> Vector3 list" where
  "interpolateBulgePoints v1 v2 bulge segments =
     (if bulge = 0 then
        [\<lparr> v3_x = dp_x v1, v3_y = dp_y v1, v3_z = orDefault (dp_z v1) 0 \<rparr>,
         \<lparr> v3_x = dp_x v2, v3_y = dp_y v2, v3_z = orDefault (dp_z v2) 0 \<rparr>]
      else
        (let chordX = dp_x v2 - dp_x v1;
             chordY = dp_y v2 - dp_y v1;
             len = sqrt (chordX * chordX + chordY * chordY);
             sagitta = (bulge * len) / 2;
             halfX = chordX * (1 / 2);
             halfY = chordY * (1 / 2);
             midX = dp_x v1 + halfX;
             midY = dp_y v1 + halfY;
             perpLen = sqrt (halfY * halfY + halfX * halfX);
             perpX = (- halfY) / orDefault (Some perpLen) 1 * sagitta;
             perpY = halfX / orDefault (Some perpLen) 1 * sagitta;
             centerX = midX + perpX;
             centerY = midY + perpY;
             radius = sqrt ((centerX - dp_x v1) * (centerX - dp_x v1)
                            + (centerY - dp_y v1) * (centerY - dp_y v1));
             startAngle = atan2 (dp_y v1 - centerY) (dp_x v1 - centerX);
             endAngle0 = atan2 (dp_y v2 - centerY) (dp_x v2 - centerX);
             clockwise = bulge < 0;
             endAngle = (if clockwise \<and> endAngle0 > startAngle then endAngle0 - pi * 2
                         else if \<not> clockwise \<and> endAngle0 < startAngle then endAngle0 + pi * 2
                         else endAngle0)
         in map (\<lambda>i. let t = real i / real segments;
                          angle = startAngle + t * (endAngle - startAngle)
                      in \<lparr> v3_x = centerX + radius * cos angle,
                           v3_y = centerY + radius * sin angle,
                           v3_z = orDefault (dp_z v1) 0 \<rparr>)
                [0 ..< Suc segments]))"

section \<open>Stage-relative table area\<close>









section \<open>The entity processor of the advanced renderer: block references\<close>

text \<open>
  The processor accumulates line batches per colour (six numbers per segment:
  \<open>x1, y1, 0, x2, y2, 0\<close>) and a bounding box per lower-cased layer name. A fresh layer
  box is \<open>{Infinity, Infinity, -Infinity, -Infinity}\<close>, which is \<open>None\<close> here.
\<close>

record EntityProcessor =
  lineBatches :: "(string \<times> real list) list"
  layerBounds :: "(string \<times> Bounds option) list"
  centerX :: real
  centerY :: real

text \<open>\<open>parseFloat(value.toFixed(8))\<close>: rounding to eight decimals, ties away from zero.\<close>

definition toPrecise :: "real \<Rightarrow> real" where
  "toPrecise v =
     (if v < 0 then - (real_of_int \<lfloor>(- v) * 10 ^ 8 + 1 / 2\<rfloor> / 10 ^ 8)
      else real_of_int \<lfloor>v * 10 ^ 8 + 1 / 2\<rfloor> / 10 ^ 8)"

definition transformPoint :: "DxfPoint \<Rightarrow> real \<Rightarrow> real \<Rightarrow> real \<times> real" where
  "transformPoint point cx cy = (toPrecise (dp_x point - cx), toPrecise (dp_y point - cy))"

fun pushNumbers :: "string \<Rightarrow> real list \<Rightarrow> (string \<times> real list) list \<Rightarrow> (string \<times> real list) list" where
  "pushNumbers color ns [] = [(color, ns)]"
| "pushNumbers color ns ((k, v) # rest) =
     (if k = color then (k, v @ ns) # rest else (k, v) # pushNumbers color ns rest)"

definition addLine :: "string \<Rightarrow> real \<Rightarrow> real \<Rightarrow> real \<Rightarrow> real \<Rightarrow> EntityProcessor \<Rightarrow> EntityProcessor" where
  "addLine color x1 y1 x2 y2 st =
     st\<lparr> lineBatches := pushNumbers color [x1, y1, 0, x2, y2, 0] (lineBatches st) \<rparr>"

definition toLowerChar :: "char \<Rightarrow> char" where
  "toLowerChar c =
     (let n = (of_char c :: nat) in if 65 \<le> n \<and> n \<le> 90 then char_of (n + 32) else c)"

definition growBox :: "Bounds option \<Rightarrow> DxfPoint \<Rightarrow> Bounds option" where
  "growBox box p =
     (case box of
        None \<Rightarrow> Some \<lparr> minX = dp_x p, maxX = dp_x p, minY = dp_y p, maxY = dp_y p \<rparr>
      | Some b \<Rightarrow> Some \<lparr> minX = min (minX b) (dp_x p), maxX = max (maxX b) (dp_x p),
                         minY = min (minY b) (dp_y p), maxY = max (maxY b) (dp_y p) \<rparr>)"

fun setBox :: "string \<Rightarrow> DxfPoint list \<Rightarrow> (string \<times> Bounds option) list
    \<Rightarrow> (string \<times> Bounds option) list" where
  "setBox key points [] = [(key, fold (\<lambda>p box. growBox box p) points None)]"
| "setBox key points ((k, v) # rest) =
     (if k = key then (k, fold (\<lambda>p box. growBox box p) points v) # rest
      else (k, v) # setBox key points rest)"

definition updateLayerBounds :: "string \<Rightarrow> DxfPoint list \<Rightarrow> EntityProcessor \<Rightarrow> EntityProcessor" where
  "updateLayerBounds layer points st =
     (if layer = [] \<or> points = [] then st
      else st\<lparr> layerBounds := setBox (map toLowerChar layer) points (layerBounds st) \<rparr>)"

definition createPlaceholder :: "DxfPoint \<Rightarrow> string \<Rightarrow> EntityProcessor \<Rightarrow> EntityProcessor" where
  "createPlaceholder position color st =
     (let size = 50;
          pos = transformPoint position (centerX st) (centerY st)
      in addLine color (fst pos) (snd pos - size) (fst pos) (snd pos + size)
           (addLine color (fst pos - size) (snd pos) (fst pos + size) (snd pos) st))"

text \<open>
  \<open>dxf.blocks[entity.name]\<close> in the processor: a missing name is the key
  \<open>undefined\<close>.
\<close>

definition lookupBlockByName :: "Dxf \<Rightarrow> string option \<Rightarrow> Block option" where
  "lookupBlockByName dxf name =
     (case blocks dxf of
        None \<Rightarrow> None
      | Some bs \<Rightarrow> map_of bs (case name of None \<Rightarrow> ''undefined'' | Some n \<Rightarrow> n))"

text \<open>
  \<open>EntityProcessor.processInsert\<close>. The expansion of a block that has entities (the
  transformation of each block entity and its dispatch) is the parameter \<open>expand\<close>; the
  paths without it are an INSERT with no position (nothing happens), a block that is not
  in the table, and a block with no or an empty entity list.
\<close>

definition epProcessInsert ::
  "(Entity \<Rightarrow> Entity list \<Rightarrow> EntityProcessor \<Rightarrow> EntityProcessor) \<Rightarrow> Entity \<Rightarrow> Dxf \<Rightarrow> string
     \<Rightarrow> string \<Rightarrow> EntityProcessor \<Rightarrow> EntityProcessor" where
  "epProcessInsert expand entity dxf color layer st =
     (case e_position entity of
        None \<Rightarrow> st
      | Some position \<Rightarrow>
          (let st' = updateLayerBounds layer [position] st in
           case lookupBlockByName dxf (e_name entity) of
             None \<Rightarrow> createPlaceholder position color st'
           | Some block \<Rightarrow>
               (case b_entities block of
                  None \<Rightarrow> createPlaceholder position color st'
                | Some blockEntities \<Rightarrow>
                    if blockEntities = [] then createPlaceholder position color st'
                    else expand entity blockEntities st')))"

section \<open>Notions used to state the claims\<close>

text \<open>The spacings that make the column loops of the smart mix return.\<close>

definition mixSpacingsOk :: "TableConfig \<Rightarrow> bool" where
  "mixSpacingsOk cfg =
     (0 \<le> tableSpacing cfg \<and> (case singleChair cfg of None \<Rightarrow> True | Some ch \<Rightarrow> 0 \<le> c_spacing ch))"

text \<open>
  No pitch that the packer divides by is zero: the column and row pitch of the tables and,
  when single chairs are configured, the column and row pitch of the chairs and the height
  of a block of chair rows.
\<close>

definition pitchesNonzero :: "TableConfig \<Rightarrow> bool" where
  "pitchesNonzero cfg =
     (width cfg + columnSpacing cfg \<noteq> 0 \<and> height cfg + tableSpacing cfg \<noteq> 0
      \<and> (case singleChair cfg of
            None \<Rightarrow> True
          | Some ch \<Rightarrow>
              c_width ch + c_spacing ch \<noteq> 0 \<and> c_height ch + c_spacing ch \<noteq> 0
              \<and> real_of_int (orDefault (c_rowsPerGroup ch) 999) * (c_height ch + c_spacing ch)
                    + orDefault (rowGroupSpacing cfg) 0 \<noteq> 0))"








text \<open>
  No placed unit starts at a column that a door overlaps, and no unit's x-origin lies
  strictly inside a door's horizontal span.
\<close>

definition originOutsideDoors :: "real \<Rightarrow> DoorArea list \<Rightarrow> Placed list \<Rightarrow> bool" where
  "originOutsideDoors unitW doors ps =
     (\<forall>p \<in> set ps. \<forall>d \<in> set doors.
        \<not> columnOverlaps (p_x p) unitW d \<and> \<not> (doorMinX d < p_x p \<and> p_x p < doorMaxX d))"

definition overlappingDoors :: "real \<Rightarrow> real \<Rightarrow> DoorArea list \<Rightarrow> DoorArea set" where
  "overlappingDoors x unitW doors = {d \<in> set doors. columnOverlaps x unitW d}"

text \<open>
  The reading of "every column is either entirely present or entirely skipped": the rows
  of a column that fit the area are \<open>columnRowYs\<close>; a column at \<open>x\<close> is entirely
  present when each of them holds a unit, entirely skipped when no unit starts at \<open>x\<close>.
\<close>

definition columnRowYs :: "TableConfig \<Rightarrow> Bounds \<Rightarrow> real list" where
  "columnRowYs cfg b =
     filter (\<lambda>y. y + height cfg \<le> maxY b)
       (map (\<lambda>row. rowYof b (height cfg + tableSpacing cfg) (orDefault (rowsPerGroup cfg) 999)
                      (orDefault (rowGroupSpacing cfg) 0) (int row))
            [0 ..< nat (maxTablesPerColumnOf cfg b)])"

definition columnEntirelyPresent :: "TableConfig \<Rightarrow> Bounds \<Rightarrow> real \<Rightarrow> Placed list \<Rightarrow> bool" where
  "columnEntirelyPresent cfg b x ps =
     list_all (\<lambda>y. list_ex (\<lambda>p. p_x p = x \<and> p_y p = y) ps) (columnRowYs cfg b)"

definition columnEntirelySkipped :: "real \<Rightarrow> Placed list \<Rightarrow> bool" where
  "columnEntirelySkipped x ps = list_all (\<lambda>p. p_x p \<noteq> x) ps"

text \<open>
  The footprint of a placed object is \<open>[x, x + width] \<times> [y, y + height]\<close> (the packer
  bounds it by \<open>x + width \<le> maxX\<close> and \<open>y + height \<le> maxY\<close>). The door test of the
  claim converts the top-left corner to the centre before the AABB test.
\<close>

definition footprintOverlapsDoor :: "HallObject \<Rightarrow> DoorArea \<Rightarrow> bool" where
  "footprintOverlapsDoor obj door =
     isObjectInDoorArea
       \<lparr> o_x = h_x obj + h_width obj / 2, o_y = h_y obj + h_height obj / 2,
         o_width = h_width obj, o_height = h_height obj, o_rotation = h_rotation obj \<rparr> door"

definition allCornersInside :: "HallObject \<Rightarrow> Point list \<Rightarrow> bool" where
  "allCornersInside obj polygon =
     list_all (\<lambda>corner. isPointInPolygon corner polygon)
       [\<lparr> pt_x = h_x obj, pt_y = h_y obj \<rparr>,
        \<lparr> pt_x = h_x obj + h_width obj, pt_y = h_y obj \<rparr>,
        \<lparr> pt_x = h_x obj, pt_y = h_y obj + h_height obj \<rparr>,
        \<lparr> pt_x = h_x obj + h_width obj, pt_y = h_y obj + h_height obj \<rparr>]"

text \<open>A placed table of the given size has all four corners inside the polygon.\<close>

definition cornersInside :: "real \<Rightarrow> real \<Rightarrow> Point list \<Rightarrow> Placed \<Rightarrow> bool" where
  "cornersInside w h polygon p =
     allCornersInside \<lparr> h_type = Table, h_x = p_x p, h_y = p_y p, h_width = w, h_height = h,
                        h_tableIndex = p_index p, h_rotation = 0 \<rparr> polygon"

text \<open>
  The recorded gap is the gap of the recorded guest count, or still \<open>Infinity\<close>.
\<close>

definition bestInv :: "int \<Rightarrow> BestSolution \<Rightarrow> bool" where
  "bestInv targetGuestCount best =
     (gap best = None \<or> gap best = Some \<bar>b_actualGuests best - targetGuestCount\<bar>)"

text \<open>\<open>improves best' best\<close>: the gap of \<open>best'\<close> is finite and strictly below the gap of \<open>best\<close>.\<close>

definition improves :: "BestSolution \<Rightarrow> BestSolution \<Rightarrow> bool" where
  "improves best' best = (case gap best' of None \<Rightarrow> False | Some g \<Rightarrow> gapLess g (gap best))"










text \<open>The block of an INSERT is unresolvable: not in the table, or without entities.\<close>

definition blockUnresolved :: "Dxf \<Rightarrow> string option \<Rightarrow> bool" where
  "blockUnresolved dxf name =
     (case lookupBlockByName dxf name of
        None \<Rightarrow> True
      | Some block \<Rightarrow> (case b_entities block of None \<Rightarrow> True | Some es \<Rightarrow> es = []))"

text \<open>The six numbers of the two arms of a cross of half-length \<open>arm\<close> centred at \<open>(x, y)\<close>.\<close>

definition crossMark :: "real \<Rightarrow> real \<Rightarrow> real \<Rightarrow> real list" where
  "crossMark x y arm = [x - arm, y, 0, x + arm, y, 0] @ [x, y - arm, 0, x, y + arm, 0]"

definition batchOf :: "string \<Rightarrow> EntityProcessor \<Rightarrow> real list" where
  "batchOf color st = (case map_of (lineBatches st) color of None \<Rightarrow> [] | Some ns \<Rightarrow> ns)"

section \<open>Concrete inputs\<close>




text \<open>
  A 10 by 20 area with 4 by 4 tables at pitch 5, and a door on the wall left of the area
  (horizontal span \<open>[-3, 0]\<close>, vertical span \<open>[0, 1]\<close>).
\<close>

definition sideDoorHall :: TableConfig where
  "sideDoorHall = \<lparr> width = 4, height = 4, chairsPerTable = 8, tableSpacing = 1,
     columnSpacing = 1, rowsPerGroup = None, rowGroupSpacing = None,
     startX = 0, startY = 0, endX = 10, endY = 20, namedPoints = None,
     singleChair = None, seatingMode = Some TablesOnly \<rparr>"

definition sideDoor :: DoorArea where
  "sideDoor = \<lparr> d_topLeft = \<lparr>pt_x = -3, pt_y = 0\<rparr>, d_topRight = \<lparr>pt_x = 0, pt_y = 0\<rparr>,
     d_bottomRight = \<lparr>pt_x = 0, pt_y = 1\<rparr>, d_bottomLeft = \<lparr>pt_x = -3, pt_y = 1\<rparr>,
     clearance = None \<rparr>"

text \<open>
  A 40 by 20 area with 10 by 10 tables and a door above the area whose horizontal span
  \<open>[10, 20]\<close> is the span of what would be the second column.
\<close>

definition doorHall :: TableConfig where
  "doorHall = \<lparr> width = 10, height = 10, chairsPerTable = 8, tableSpacing = 0,
     columnSpacing = 0, rowsPerGroup = None, rowGroupSpacing = None,
     startX = 0, startY = 0, endX = 40, endY = 20, namedPoints = None,
     singleChair = None, seatingMode = Some TablesOnly \<rparr>"

definition topDoor :: DoorArea where
  "topDoor = \<lparr> d_topLeft = \<lparr>pt_x = 10, pt_y = -10\<rparr>, d_topRight = \<lparr>pt_x = 20, pt_y = -10\<rparr>,
     d_bottomRight = \<lparr>pt_x = 20, pt_y = -6\<rparr>, d_bottomLeft = \<lparr>pt_x = 10, pt_y = -6\<rparr>,
     clearance = None \<rparr>"

text \<open>The failing input of claim C4: one table position and a door with clearance.\<close>

definition clearanceHall :: TableConfig where
  "clearanceHall = \<lparr> width = 10, height = 10, chairsPerTable = 8, tableSpacing = 0,
     columnSpacing = 0, rowsPerGroup = None, rowGroupSpacing = None,
     startX = 0, startY = 0, endX = 10, endY = 10, namedPoints = None,
     singleChair = None, seatingMode = Some TablesOnly \<rparr>"

definition clearanceDoor :: DoorArea where
  "clearanceDoor = \<lparr> d_topLeft = \<lparr>pt_x = 12, pt_y = 0\<rparr>, d_topRight = \<lparr>pt_x = 20, pt_y = 0\<rparr>,
     d_bottomRight = \<lparr>pt_x = 20, pt_y = 10\<rparr>, d_bottomLeft = \<lparr>pt_x = 12, pt_y = 10\<rparr>,
     clearance = Some 5 \<rparr>"

text \<open>The failing input of claim C5: a trapezoid area.\<close>

definition trapezoid :: TableAreaPoints where
  "trapezoid = \<lparr> topLeft = \<lparr>pt_x = 0, pt_y = 0\<rparr>, topRight = \<lparr>pt_x = 10, pt_y = 0\<rparr>,
     bottomRight = \<lparr>pt_x = 10, pt_y = 10\<rparr>, bottomLeft = \<lparr>pt_x = 6, pt_y = 10\<rparr> \<rparr>"

definition trapezoidHall :: TableConfig where
  "trapezoidHall = \<lparr> width = 4, height = 4, chairsPerTable = 8, tableSpacing = 1,
     columnSpacing = 1, rowsPerGroup = None, rowGroupSpacing = None,
     startX = 0, startY = 0, endX = 0, endY = 0, namedPoints = Some trapezoid,
     singleChair = None, seatingMode = Some TablesOnly \<rparr>"

text \<open>
  A 10 by 8 area, one 4 by 8 table per column at pitch 5, chairs 6 wide in columns of
  eight: two table columns fit, or one chair column, but no chair column beside a table.
\<close>

definition tieChair :: SingleChairConfig where
  "tieChair = \<lparr> c_width = 6, c_height = 1, c_spacing = 0, c_rotation = None,
     c_rowsPerGroup = Some 8 \<rparr>"

definition tieHall :: TableConfig where
  "tieHall = \<lparr> width = 4, height = 8, chairsPerTable = 8, tableSpacing = 0,
     columnSpacing = 1, rowsPerGroup = None, rowGroupSpacing = None,
     startX = 0, startY = 0, endX = 10, endY = 8, namedPoints = None,
     singleChair = Some tieChair, seatingMode = Some Auto \<rparr>"

definition tieBounds :: Bounds where
  "tieBounds = \<lparr> minX = 0, maxX = 10, minY = 0, maxY = 8 \<rparr>"

definition chairColumn8 :: "Placed list" where
  "chairColumn8 = map (\<lambda>i. \<lparr> p_x = 0, p_y = real_of_int i, p_index = i \<rparr>) [0, 1, 2, 3, 4, 5, 6, 7]"

text \<open>The best solution after the candidate with two table columns.\<close>

definition twoColumnsBest :: BestSolution where
  "twoColumnsBest = \<lparr> b_tables = [\<lparr>p_x = 0, p_y = 0, p_index = 0\<rparr>,
       \<lparr>p_x = 5, p_y = 0, p_index = 1\<rparr>], b_chairs = [], b_actualGuests = 16, gap = Some 6 \<rparr>"

text \<open>
  The failing input of claim C10: chairs in groups of 16 rows, tables in groups of 4 rows,
  a 100 by 300 area.
\<close>

definition groupedChair :: SingleChairConfig where
  "groupedChair = \<lparr> c_width = 8, c_height = 8, c_spacing = 2, c_rotation = None,
     c_rowsPerGroup = Some 16 \<rparr>"

definition groupedHall :: TableConfig where
  "groupedHall = \<lparr> width = 40, height = 40, chairsPerTable = 8, tableSpacing = 10,
     columnSpacing = 10, rowsPerGroup = Some 4, rowGroupSpacing = Some 65,
     startX = 0, startY = 0, endX = 100, endY = 300, namedPoints = None,
     singleChair = Some groupedChair, seatingMode = Some Auto \<rparr>"

definition blankEntity :: "string \<Rightarrow> Entity" where
  "blankEntity ty = \<lparr> e_type = ty, e_vertices = None, e_start = None, e_end = None,
     e_center = None, e_radius = None, e_startAngle = None, e_endAngle = None,
     e_controlPoints = None, e_name = None, e_position = None, e_scale = None,
     e_rotation = None, e_layer = None, e_color = None \<rparr>"

definition unitLine :: Entity where
  "unitLine = (blankEntity ''LINE'')
     \<lparr> e_vertices := Some [\<lparr> dp_x = 0, dp_y = 0, dp_z = None \<rparr>,
                            \<lparr> dp_x = 1, dp_y = 0, dp_z = None \<rparr>] \<rparr>"





definition ghostInsert :: Entity where
  "ghostInsert = (blankEntity ''INSERT'')
     \<lparr> e_name := Some ''GHOST'', e_position := Some \<lparr> dp_x = 120, dp_y = 80, dp_z = None \<rparr> \<rparr>"

definition ghostDoc :: Dxf where
  "ghostDoc = \<lparr> entities = Some [ghostInsert, unitLine], blocks = Some [] \<rparr>"

definition freshProcessor :: EntityProcessor where
  "freshProcessor = \<lparr> lineBatches = [], layerBounds = [], centerX = 100, centerY = 50 \<rparr>"





section \<open>Measures and invariants of the placement loops\<close>

text \<open>The doors whose right edge is still ahead of the cursor.\<close>

definition doorsRight :: "real \<Rightarrow> DoorArea list \<Rightarrow> nat" where
  "doorsRight x doors = length (filter (\<lambda>d. x < doorMaxX d) doors)"

definition tablesOnlyGuard :: "int \<Rightarrow> TableConfig \<Rightarrow> Bounds \<Rightarrow> PackState \<Rightarrow> bool" where
  "tablesOnlyGuard t cfg b st =
     (currentGuests st < t \<and> currentX st + width cfg \<le> maxX b)"

definition tablesOnlyMeasure :: "TableConfig \<Rightarrow> DoorArea list \<Rightarrow> Bounds \<Rightarrow> PackState \<Rightarrow> nat" where
  "tablesOnlyMeasure cfg doors b st =
     nat (\<lfloor>(maxX b - width cfg - currentX st) / (width cfg + columnSpacing cfg)\<rfloor> + 1)
     + doorsRight (currentX st) doors"

definition columnsMeasure :: "int \<Rightarrow> DoorArea list \<Rightarrow> PackState \<Rightarrow> nat" where
  "columnsMeasure numColumns doors st =
     nat (numColumns - columnsPlaced st) * (length doors + 1) + doorsRight (currentX st) doors"

definition tablesInColumnsGuard :: "int \<Rightarrow> TableConfig \<Rightarrow> Bounds \<Rightarrow> PackState \<Rightarrow> bool" where
  "tablesInColumnsGuard n cfg b st =
     (columnsPlaced st < n \<and> currentX st + width cfg \<le> maxX b)"

definition chairsInColumnsGuard ::
  "int \<Rightarrow> int \<Rightarrow> SingleChairConfig \<Rightarrow> Bounds \<Rightarrow> PackState \<Rightarrow> bool" where
  "chairsInColumnsGuard n mg ch b st =
     (columnsPlaced st < n \<and> currentGuests st < mg \<and> currentX st + c_width ch \<le> maxX b)"

definition clearOfDoors :: "real \<Rightarrow> DoorArea list \<Rightarrow> Placed list \<Rightarrow> bool" where
  "clearOfDoors unitW doors ps =
     (\<forall>p \<in> set ps. \<not> columnOverlapsDoor (p_x p) unitW doors)"

section \<open>Facts about the column cursor\<close>

lemma maxDoorEndX_fold_ge:
  "m \<le> fold (\<lambda>door m. if columnOverlaps x w door then max m (doorMaxX door) else m) doors m"
proof (induction doors arbitrary: m)
  case Nil then show ?case by simp
next
  case (Cons a doors)
  show ?case
  proof (cases "columnOverlaps x w a")
    case True
    have "m \<le> max m (doorMaxX a)" by simp
    also note Cons.IH[of "max m (doorMaxX a)"]
    finally show ?thesis using True by simp
  next
    case False
    then show ?thesis using Cons.IH[of m] by simp
  qed
qed

lemma maxDoorEndX_ge: "x \<le> maxDoorEndX x w doors"
  unfolding maxDoorEndX_def by (rule maxDoorEndX_fold_ge)

lemma maxDoorEndX_fold_door:
  "d \<in> set doors \<Longrightarrow> columnOverlaps x w d \<Longrightarrow>
   doorMaxX d \<le> fold (\<lambda>door m. if columnOverlaps x w door then max m (doorMaxX door) else m) doors m"
proof (induction doors arbitrary: m)
  case Nil then show ?case by simp
next
  case (Cons a doors)
  show ?case
  proof (cases "d = a")
    case True
    have "doorMaxX d \<le> max m (doorMaxX d)" by simp
    also have "\<dots> \<le> fold (\<lambda>door m. if columnOverlaps x w door then max m (doorMaxX door) else m) doors (max m (doorMaxX d))"
      by (rule maxDoorEndX_fold_ge)
    finally show ?thesis using True Cons.prems by simp
  next
    case False
    then have "d \<in> set doors" using Cons.prems by simp
    from Cons.IH[OF this Cons.prems(2)] show ?thesis by simp
  qed
qed

lemma maxDoorEndX_door:
  "d \<in> set doors \<Longrightarrow> columnOverlaps x w d \<Longrightarrow> doorMaxX d \<le> maxDoorEndX x w doors"
  unfolding maxDoorEndX_def by (rule maxDoorEndX_fold_door)

lemma maxDoorEndX_fold_Max:
  "fold (\<lambda>door m. if columnOverlaps x w door then max m (doorMaxX door) else m) doors m
   = Max (insert m (doorMaxX ` {d \<in> set doors. columnOverlaps x w d}))"
proof (induction doors arbitrary: m)
  case Nil then show ?case by simp
next
  case (Cons a doors)
  let ?S = "doorMaxX ` {d \<in> set doors. columnOverlaps x w d}"
  have fin: "finite ?S" by simp
  show ?case
  proof (cases "columnOverlaps x w a")
    case True
    then have eq: "{d \<in> set (a # doors). columnOverlaps x w d}
                   = insert a {d \<in> set doors. columnOverlaps x w d}" by auto
    have "Max (insert (max m (doorMaxX a)) ?S) = Max (insert m (insert (doorMaxX a) ?S))"
    proof (cases "?S = {}")
      case True
      show ?thesis unfolding True by simp
    next
      case False
      show ?thesis using fin False by (simp add: max.assoc)
    qed
    then show ?thesis using True Cons.IH[of "max m (doorMaxX a)"] eq by simp
  next
    case False
    then have eq: "{d \<in> set (a # doors). columnOverlaps x w d}
                   = {d \<in> set doors. columnOverlaps x w d}" by auto
    show ?thesis using False Cons.IH[of m] eq by simp
  qed
qed

lemma maxDoorEndX_Max:
  assumes "columnOverlapsDoor x w doors"
  shows "maxDoorEndX x w doors = Max (doorMaxX ` {d \<in> set doors. columnOverlaps x w d})"
proof -
  let ?S = "doorMaxX ` {d \<in> set doors. columnOverlaps x w d}"
  from assms obtain d0 where d0: "d0 \<in> set doors" "columnOverlaps x w d0"
    by (auto simp: columnOverlapsDoor_def list_ex_iff)
  then have ne: "?S \<noteq> {}" by auto
  have fin: "finite ?S" by simp
  have "x < doorMaxX d0" using d0(2) by (simp add: columnOverlaps_def)
  moreover have "doorMaxX d0 \<le> Max ?S" using d0 fin by (intro Max_ge) auto
  ultimately have "x \<le> Max ?S" by linarith
  then have "Max (insert x ?S) = Max ?S" using fin ne by (simp add: max_absorb2)
  then show ?thesis unfolding maxDoorEndX_def by (simp add: maxDoorEndX_fold_Max)
qed

lemma length_filter_mono:
  assumes "\<And>d. d \<in> set xs \<Longrightarrow> Q d \<Longrightarrow> P d"
  shows "length (filter Q xs) \<le> length (filter P xs)"
  using assms
proof (induction xs)
  case Nil then show ?case by simp
next
  case (Cons a xs)
  then have "length (filter Q xs) \<le> length (filter P xs)" by simp
  then show ?case using Cons.prems[of a] by auto
qed

lemma length_filter_mono_strict:
  assumes "\<And>d. d \<in> set xs \<Longrightarrow> Q d \<Longrightarrow> P d" and "d0 \<in> set xs" and "P d0" and "\<not> Q d0"
  shows "length (filter Q xs) < length (filter P xs)"
  using assms
proof (induction xs)
  case Nil then show ?case by simp
next
  case (Cons a xs)
  have le: "length (filter Q xs) \<le> length (filter P xs)"
    by (rule length_filter_mono) (simp add: Cons.prems(1))
  show ?case
  proof (cases "d0 = a")
    case True
    then show ?thesis using le Cons.prems by auto
  next
    case False
    then have "length (filter Q xs) < length (filter P xs)"
      using Cons by auto
    then show ?thesis using Cons.prems(1)[of a] by auto
  qed
qed

lemma doorsRight_le_length: "doorsRight x doors \<le> length doors"
  by (simp add: doorsRight_def)

lemma doorsRight_mono: "x \<le> x' \<Longrightarrow> doorsRight x' doors \<le> doorsRight x doors"
  unfolding doorsRight_def by (rule length_filter_mono) auto

lemma doorsRight_jump:
  assumes sp: "0 \<le> spacing" and ov: "columnOverlapsDoor x unitW doors"
  shows "doorsRight (maxDoorEndX x unitW doors + spacing) doors < doorsRight x doors"
proof -
  let ?x' = "maxDoorEndX x unitW doors + spacing"
  have ge: "x \<le> ?x'" using maxDoorEndX_ge[of x unitW doors] sp by linarith
  from ov obtain d0 where d0: "d0 \<in> set doors" "columnOverlaps x unitW d0"
    by (auto simp: columnOverlapsDoor_def list_ex_iff)
  have "doorMaxX d0 \<le> ?x'" using maxDoorEndX_door[OF d0] sp by linarith
  then have notQ: "\<not> ?x' < doorMaxX d0" by simp
  have P: "x < doorMaxX d0" using d0(2) by (simp add: columnOverlaps_def)
  show ?thesis unfolding doorsRight_def
    by (rule length_filter_mono_strict[where ?d0.0 = d0]) (use ge d0(1) P notQ in auto)
qed

lemma floor_step_decreases:
  fixes c x pitch :: real
  assumes step: "0 < pitch" and guard: "x \<le> c"
  shows "nat (\<lfloor>(c - (x + pitch)) / pitch\<rfloor> + 1) < nat (\<lfloor>(c - x) / pitch\<rfloor> + 1)"
proof -
  have "(c - (x + pitch)) / pitch = (c - x) / pitch - 1"
    using step by (simp add: field_simps)
  then have fl: "\<lfloor>(c - (x + pitch)) / pitch\<rfloor> = \<lfloor>(c - x) / pitch\<rfloor> - 1"
    by simp
  have "0 \<le> (c - x) / pitch" using guard step by simp
  then have "0 \<le> \<lfloor>(c - x) / pitch\<rfloor>" by simp
  then show ?thesis using fl by linarith
qed

lemma floor_jump_le:
  fixes c x x' pitch :: real
  assumes step: "0 < pitch" and ge: "x \<le> x'"
  shows "nat (\<lfloor>(c - x') / pitch\<rfloor> + 1) \<le> nat (\<lfloor>(c - x) / pitch\<rfloor> + 1)"
proof -
  have "(c - x') / pitch \<le> (c - x) / pitch"
    using ge step by (simp add: divide_right_mono)
  then have "\<lfloor>(c - x') / pitch\<rfloor> \<le> \<lfloor>(c - x) / pitch\<rfloor>"
    by (rule floor_mono)
  then show ?thesis by linarith
qed

section \<open>The placement loops return and keep their invariants\<close>

lemma tablesOnlyRows_rule:
  assumes "I st"
    and "\<And>s rowY. I s \<Longrightarrow> currentGuests s < t \<Longrightarrow> I (place s rowY (chairsPerTable cfg))"
  shows "I (tablesOnlyRows t cfg doors b m row st)"
  using assms
proof (induction t cfg doors b m row st rule: tablesOnlyRows.induct)
  case (1 t cfg doors b m row st)
  show ?case
  proof (cases "row < m \<and> currentGuests st < t")
    case False
    then show ?thesis using "1.prems"(1) by (subst tablesOnlyRows.simps) auto
  next
    case True
    let ?rowY = "rowYof b (height cfg + tableSpacing cfg) (orDefault (rowsPerGroup cfg) 999)
                   (orDefault (rowGroupSpacing cfg) 0) row"
    let ?obj = "\<lparr> o_x = currentX st, o_y = ?rowY, o_width = width cfg,
                   o_height = height cfg, o_rotation = 0 \<rparr>"
    let ?st' = "if ?rowY + height cfg \<le> maxY b \<and> \<not> isObjectInAnyDoorArea ?obj doors
                then place st ?rowY (chairsPerTable cfg) else st"
    have "I ?st'" using "1.prems" True by simp
    from "1.IH"[OF True refl refl refl this "1.prems"(2)]
    have "I (tablesOnlyRows t cfg doors b m (row + 1) ?st')" by simp
    then show ?thesis using True by (subst tablesOnlyRows.simps) (simp add: Let_def)
  qed
qed

lemma tablesOnlyRows_currentX:
  "currentX (tablesOnlyRows t cfg doors b m row st) = currentX st"
  by (induction t cfg doors b m row st rule: tablesOnlyRows.induct)
     (subst tablesOnlyRows.simps, simp add: Let_def place_def)

lemma tablesOnlyLoop_rule:
  assumes step: "0 < width cfg + columnSpacing cfg" and sp: "0 \<le> tableSpacing cfg"
    and jump: "\<And>s. I s \<Longrightarrow> tablesOnlyGuard t cfg b s
                 \<Longrightarrow> columnOverlapsDoor (currentX s) (width cfg) doors
                 \<Longrightarrow> I (s\<lparr> currentX := maxDoorEndX (currentX s) (width cfg) doors
                                           + tableSpacing cfg \<rparr>)"
    and fill: "\<And>s. I s \<Longrightarrow> tablesOnlyGuard t cfg b s
                 \<Longrightarrow> \<not> columnOverlapsDoor (currentX s) (width cfg) doors
                 \<Longrightarrow> I ((tablesOnlyRows t cfg doors b m 0 s)
                         \<lparr> currentX := currentX s + (width cfg + columnSpacing cfg) \<rparr>)"
  shows "I st \<Longrightarrow>
         \<exists>s'. tablesOnlyLoop t cfg doors b m st = Some s' \<and> I s' \<and> \<not> tablesOnlyGuard t cfg b s'"
proof (induction "tablesOnlyMeasure cfg doors b st" arbitrary: st rule: less_induct)
  case less
  show ?case
  proof (cases "tablesOnlyGuard t cfg b st")
    case False
    then show ?thesis using less.prems
      by (subst tablesOnlyLoop.simps) (auto simp: tablesOnlyGuard_def)
  next
    case guard: True
    show ?thesis
    proof (cases "columnOverlapsDoor (currentX st) (width cfg) doors")
      case True
      let ?st' = "st\<lparr> currentX := maxDoorEndX (currentX st) (width cfg) doors + tableSpacing cfg \<rparr>"
      have "currentX st \<le> currentX ?st'"
        using maxDoorEndX_ge[of "currentX st" "width cfg" doors] sp by simp
      from floor_jump_le[OF step this] doorsRight_jump[OF sp True]
      have "tablesOnlyMeasure cfg doors b ?st' < tablesOnlyMeasure cfg doors b st"
        unfolding tablesOnlyMeasure_def by (simp add: add_le_less_mono)
      moreover have "I ?st'" by (rule jump[OF less.prems guard True])
      ultimately obtain s' where "tablesOnlyLoop t cfg doors b m ?st' = Some s'"
        "I s'" "\<not> tablesOnlyGuard t cfg b s'"
        using less.hyps by blast
      then show ?thesis using guard True
        by (subst tablesOnlyLoop.simps) (simp add: tablesOnlyGuard_def)
    next
      case False
      let ?r = "tablesOnlyRows t cfg doors b m 0 st"
      let ?st' = "?r\<lparr> currentX := currentX st + (width cfg + columnSpacing cfg) \<rparr>"
      have g: "currentX st \<le> maxX b - width cfg"
        using guard by (simp add: tablesOnlyGuard_def)
      have "doorsRight (currentX ?st') doors \<le> doorsRight (currentX st) doors"
        by (rule doorsRight_mono) (use step in simp)
      with floor_step_decreases[OF step g]
      have "tablesOnlyMeasure cfg doors b ?st' < tablesOnlyMeasure cfg doors b st"
        unfolding tablesOnlyMeasure_def by (simp add: add_less_le_mono)
      moreover have "I ?st'" by (rule fill[OF less.prems guard False])
      ultimately obtain s' where "tablesOnlyLoop t cfg doors b m ?st' = Some s'"
        "I s'" "\<not> tablesOnlyGuard t cfg b s'"
        using less.hyps by blast
      then show ?thesis using guard False
        by (subst tablesOnlyLoop.simps)
           (simp add: Let_def tablesOnlyGuard_def tablesOnlyRows_currentX)
    qed
  qed
qed

lemma tablesInColumnRows_rule:
  assumes "I st"
    and "\<And>s rowY. I s \<Longrightarrow> I (place s rowY (chairsPerTable cfg))"
  shows "I (tablesInColumnRows cfg doors b m g sp row st)"
  using assms
proof (induction cfg doors b m g sp row st rule: tablesInColumnRows.induct)
  case (1 cfg doors b m g sp row st)
  show ?case
  proof (cases "row < m")
    case False
    then show ?thesis using "1.prems"(1) by (subst tablesInColumnRows.simps) simp
  next
    case True
    let ?rowY = "rowYof b (height cfg + tableSpacing cfg) g sp row"
    let ?obj = "\<lparr> o_x = currentX st, o_y = ?rowY, o_width = width cfg,
                   o_height = height cfg, o_rotation = 0 \<rparr>"
    let ?st' = "if currentX st + width cfg \<le> maxX b \<and> ?rowY + height cfg \<le> maxY b
                   \<and> \<not> isObjectInAnyDoorArea ?obj doors
                then place st ?rowY (chairsPerTable cfg) else st"
    have "I ?st'" using "1.prems" by simp
    from "1.IH"[OF True refl refl refl this "1.prems"(2)]
    have "I (tablesInColumnRows cfg doors b m g sp (row + 1) ?st')" by simp
    then show ?thesis using True by (subst tablesInColumnRows.simps) (simp add: Let_def)
  qed
qed

lemma chairsInColumnRows_rule:
  assumes "I st"
    and "\<And>s rowY. I s \<Longrightarrow> currentGuests s < mg \<Longrightarrow> I (place s rowY 1)"
  shows "I (chairsInColumnRows mg ch cfg doors b m row st)"
  using assms
proof (induction mg ch cfg doors b m row st rule: chairsInColumnRows.induct)
  case (1 mg ch cfg doors b m row st)
  show ?case
  proof (cases "row < m \<and> currentGuests st < mg")
    case False
    then show ?thesis using "1.prems"(1) by (subst chairsInColumnRows.simps) auto
  next
    case True
    let ?rowY = "rowYof b (c_height ch + c_spacing ch) (orDefault (c_rowsPerGroup ch) 999)
                   (orDefault (rowGroupSpacing cfg) 0) row"
    let ?obj = "\<lparr> o_x = currentX st, o_y = ?rowY, o_width = c_width ch,
                   o_height = c_height ch, o_rotation = orDefault (c_rotation ch) 0 \<rparr>"
    let ?st' = "if currentX st + c_width ch \<le> maxX b \<and> ?rowY + c_height ch \<le> maxY b
                   \<and> \<not> isObjectInAnyDoorArea ?obj doors
                then place st ?rowY 1 else st"
    have "I ?st'" using "1.prems" True by simp
    from "1.IH"[OF True refl refl refl this "1.prems"(2)]
    have "I (chairsInColumnRows mg ch cfg doors b m (row + 1) ?st')" by simp
    then show ?thesis using True by (subst chairsInColumnRows.simps) (simp add: Let_def)
  qed
qed

lemma tablesInColumnRows_frame:
  "currentX (tablesInColumnRows cfg doors b m g s row st) = currentX st \<and>
   columnsPlaced (tablesInColumnRows cfg doors b m g s row st) = columnsPlaced st"
  by (rule tablesInColumnRows_rule[where I = "\<lambda>s. currentX s = currentX st
        \<and> columnsPlaced s = columnsPlaced st"]) (simp_all add: place_def)

lemma chairsInColumnRows_frame:
  "currentX (chairsInColumnRows mg ch cfg doors b m row st) = currentX st \<and>
   columnsPlaced (chairsInColumnRows mg ch cfg doors b m row st) = columnsPlaced st"
  by (rule chairsInColumnRows_rule[where I = "\<lambda>s. currentX s = currentX st
        \<and> columnsPlaced s = columnsPlaced st"]) (simp_all add: place_def)

lemma columnsMeasure_jump:
  assumes "0 \<le> spacing" and "columnOverlapsDoor (currentX st) unitW doors"
  shows "columnsMeasure n doors (st\<lparr> currentX := maxDoorEndX (currentX st) unitW doors + spacing \<rparr>)
         < columnsMeasure n doors st"
  unfolding columnsMeasure_def using doorsRight_jump[OF assms] by simp

lemma columnsMeasure_step:
  assumes "columnsPlaced st < n" and "columnsPlaced st' = columnsPlaced st"
  shows "columnsMeasure n doors (st'\<lparr> columnsPlaced := columnsPlaced st' + 1, currentX := x' \<rparr>)
         < columnsMeasure n doors st"
proof -
  have "nat (n - columnsPlaced st) = Suc (nat (n - (columnsPlaced st + 1)))"
    using assms(1) by linarith
  then obtain a where a: "nat (n - columnsPlaced st) = Suc a" "nat (n - (columnsPlaced st + 1)) = a"
    by blast
  have "doorsRight x' doors \<le> length doors" by (rule doorsRight_le_length)
  then show ?thesis unfolding columnsMeasure_def using a assms(2) by simp
qed

lemma tablesInColumnsLoop_rule:
  assumes sp: "0 \<le> tableSpacing cfg"
    and jump: "\<And>s. I s \<Longrightarrow> tablesInColumnsGuard n cfg b s
                 \<Longrightarrow> columnOverlapsDoor (currentX s) (width cfg) doors
                 \<Longrightarrow> I (s\<lparr> currentX := maxDoorEndX (currentX s) (width cfg) doors
                                           + tableSpacing cfg \<rparr>)"
    and fill: "\<And>s. I s \<Longrightarrow> tablesInColumnsGuard n cfg b s
                 \<Longrightarrow> \<not> columnOverlapsDoor (currentX s) (width cfg) doors
                 \<Longrightarrow> I ((tablesInColumnRows cfg doors b m g rs 0 s)
                         \<lparr> columnsPlaced := columnsPlaced s + 1,
                           currentX := currentX s + (width cfg + columnSpacing cfg) \<rparr>)"
  shows "I st \<Longrightarrow>
         \<exists>s'. tablesInColumnsLoop n cfg doors b m g rs st = Some s' \<and> I s'
              \<and> \<not> tablesInColumnsGuard n cfg b s'"
proof (induction "columnsMeasure n doors st" arbitrary: st rule: less_induct)
  case less
  show ?case
  proof (cases "tablesInColumnsGuard n cfg b st")
    case False
    then show ?thesis using less.prems
      by (subst tablesInColumnsLoop.simps) (auto simp: tablesInColumnsGuard_def)
  next
    case guard: True
    show ?thesis
    proof (cases "columnOverlapsDoor (currentX st) (width cfg) doors")
      case True
      let ?st' = "st\<lparr> currentX := maxDoorEndX (currentX st) (width cfg) doors + tableSpacing cfg \<rparr>"
      have "columnsMeasure n doors ?st' < columnsMeasure n doors st"
        by (rule columnsMeasure_jump[OF sp True])
      moreover have "I ?st'" by (rule jump[OF less.prems guard True])
      ultimately obtain s' where "tablesInColumnsLoop n cfg doors b m g rs ?st' = Some s'"
        "I s'" "\<not> tablesInColumnsGuard n cfg b s'"
        using less.hyps by blast
      then show ?thesis using guard True
        by (subst tablesInColumnsLoop.simps) (simp add: tablesInColumnsGuard_def)
    next
      case False
      let ?r = "tablesInColumnRows cfg doors b m g rs 0 st"
      let ?st' = "?r\<lparr> columnsPlaced := columnsPlaced ?r + 1,
                      currentX := currentX st + (width cfg + columnSpacing cfg) \<rparr>"
      have cp: "columnsPlaced st < n" using guard by (simp add: tablesInColumnsGuard_def)
      have fr: "columnsPlaced ?r = columnsPlaced st" "currentX ?r = currentX st"
        using tablesInColumnRows_frame[of cfg doors b m g rs 0 st] by simp_all
      have "columnsMeasure n doors ?st' < columnsMeasure n doors st"
        by (rule columnsMeasure_step[OF cp fr(1)])
      moreover have "I ?st'" using fill[OF less.prems guard False] fr by simp
      ultimately obtain s' where "tablesInColumnsLoop n cfg doors b m g rs ?st' = Some s'"
        "I s'" "\<not> tablesInColumnsGuard n cfg b s'"
        using less.hyps by blast
      then show ?thesis using guard False fr
        by (subst tablesInColumnsLoop.simps) (simp add: Let_def tablesInColumnsGuard_def)
    qed
  qed
qed

lemma chairsInColumnsLoop_rule:
  assumes sp: "0 \<le> c_spacing ch"
    and jump: "\<And>s. I s \<Longrightarrow> chairsInColumnsGuard n mg ch b s
                 \<Longrightarrow> columnOverlapsDoor (currentX s) (c_width ch) doors
                 \<Longrightarrow> I (s\<lparr> currentX := maxDoorEndX (currentX s) (c_width ch) doors
                                           + c_spacing ch \<rparr>)"
    and fill: "\<And>s. I s \<Longrightarrow> chairsInColumnsGuard n mg ch b s
                 \<Longrightarrow> \<not> columnOverlapsDoor (currentX s) (c_width ch) doors
                 \<Longrightarrow> I ((chairsInColumnRows mg ch cfg doors b m 0 s)
                         \<lparr> columnsPlaced := columnsPlaced s + 1,
                           currentX := currentX s + (c_width ch + c_spacing ch) \<rparr>)"
  shows "I st \<Longrightarrow>
         \<exists>s'. chairsInColumnsLoop n mg ch cfg doors b m st = Some s' \<and> I s'
              \<and> \<not> chairsInColumnsGuard n mg ch b s'"
proof (induction "columnsMeasure n doors st" arbitrary: st rule: less_induct)
  case less
  show ?case
  proof (cases "chairsInColumnsGuard n mg ch b st")
    case False
    then show ?thesis using less.prems
      by (subst chairsInColumnsLoop.simps) (auto simp: chairsInColumnsGuard_def)
  next
    case guard: True
    show ?thesis
    proof (cases "columnOverlapsDoor (currentX st) (c_width ch) doors")
      case True
      let ?st' = "st\<lparr> currentX := maxDoorEndX (currentX st) (c_width ch) doors + c_spacing ch \<rparr>"
      have "columnsMeasure n doors ?st' < columnsMeasure n doors st"
        by (rule columnsMeasure_jump[OF sp True])
      moreover have "I ?st'" by (rule jump[OF less.prems guard True])
      ultimately obtain s' where "chairsInColumnsLoop n mg ch cfg doors b m ?st' = Some s'"
        "I s'" "\<not> chairsInColumnsGuard n mg ch b s'"
        using less.hyps by blast
      then show ?thesis using guard True
        by (subst chairsInColumnsLoop.simps) (simp add: chairsInColumnsGuard_def)
    next
      case False
      let ?r = "chairsInColumnRows mg ch cfg doors b m 0 st"
      let ?st' = "?r\<lparr> columnsPlaced := columnsPlaced ?r + 1,
                      currentX := currentX st + (c_width ch + c_spacing ch) \<rparr>"
      have cp: "columnsPlaced st < n" using guard by (simp add: chairsInColumnsGuard_def)
      have fr: "columnsPlaced ?r = columnsPlaced st" "currentX ?r = currentX st"
        using chairsInColumnRows_frame[of mg ch cfg doors b m 0 st] by simp_all
      have "columnsMeasure n doors ?st' < columnsMeasure n doors st"
        by (rule columnsMeasure_step[OF cp fr(1)])
      moreover have "I ?st'" using fill[OF less.prems guard False] fr by simp
      ultimately obtain s' where "chairsInColumnsLoop n mg ch cfg doors b m ?st' = Some s'"
        "I s'" "\<not> chairsInColumnsGuard n mg ch b s'"
        using less.hyps by blast
      then show ?thesis using guard False fr
        by (subst chairsInColumnsLoop.simps) (simp add: Let_def chairsInColumnsGuard_def)
    qed
  qed
qed

lemma clearOfDoors_place:
  "clearOfDoors w doors (placed s) \<Longrightarrow> \<not> columnOverlapsDoor (currentX s) w doors
   \<Longrightarrow> clearOfDoors w doors (placed (place s rowY seats))"
  by (simp add: clearOfDoors_def place_def)

lemma clearOfDoors_origin:
  assumes "0 \<le> unitW" and "clearOfDoors unitW doors ps"
  shows "originOutsideDoors unitW doors ps"
  unfolding originOutsideDoors_def
proof (intro ballI)
  fix p d assume p: "p \<in> set ps" and d: "d \<in> set doors"
  have "\<not> columnOverlapsDoor (p_x p) unitW doors"
    using assms(2) p by (simp add: clearOfDoors_def)
  then have no: "\<not> columnOverlaps (p_x p) unitW d"
    using d by (auto simp: columnOverlapsDoor_def list_ex_iff)
  then show "\<not> columnOverlaps (p_x p) unitW d
             \<and> \<not> (doorMinX d < p_x p \<and> p_x p < doorMaxX d)"
    using assms(1) by (auto simp: columnOverlaps_def)
qed


lemma placeTablesOnlyRun_clear:
  assumes step: "0 < width cfg + columnSpacing cfg" and sp: "0 \<le> tableSpacing cfg"
  shows "\<exists>st. placeTablesOnlyRun g cfg doors = Some st
           \<and> clearOfDoors (width cfg) doors (placed st)"
proof -
  let ?b = "areaBounds cfg"
  let ?m = "maxTablesPerColumnOf cfg ?b"
  let ?I = "\<lambda>s::PackState. clearOfDoors (width cfg) doors (placed s)"
  have "\<exists>s'. tablesOnlyLoop g cfg doors ?b ?m (packInit (minX ?b)) = Some s' \<and> ?I s'
          \<and> \<not> tablesOnlyGuard g cfg ?b s'"
  proof (rule tablesOnlyLoop_rule[OF step sp, where I = ?I])
    fix s :: PackState assume "?I s"
    then show "?I (s\<lparr> currentX := maxDoorEndX (currentX s) (width cfg) doors
                                       + tableSpacing cfg \<rparr>)" by simp
  next
    fix s :: PackState
    assume I: "?I s" and no: "\<not> columnOverlapsDoor (currentX s) (width cfg) doors"
    let ?J = "\<lambda>r::PackState. ?I r \<and> currentX r = currentX s"
    have "?J (tablesOnlyRows g cfg doors ?b ?m 0 s)"
    proof (rule tablesOnlyRows_rule[where I = ?J])
      show "?J s" using I by simp
    next
      fix r :: PackState and rowY :: real assume J: "?J r"
      then have "clearOfDoors (width cfg) doors (placed (place r rowY (chairsPerTable cfg)))"
        using no by (intro clearOfDoors_place) simp_all
      then show "?J (place r rowY (chairsPerTable cfg))"
        using J by (simp add: place_def)
    qed
    then show "?I ((tablesOnlyRows g cfg doors ?b ?m 0 s)
                   \<lparr> currentX := currentX s + (width cfg + columnSpacing cfg) \<rparr>)"
      by simp
  next
    show "?I (packInit (minX ?b))" by (simp add: packInit_def clearOfDoors_def)
  qed
  then show ?thesis
    unfolding placeTablesOnlyRun_def Let_def by blast
qed

lemma placeTablesInColumns_clear:
  assumes sp: "0 \<le> tableSpacing cfg"
  shows "\<exists>ts. placeTablesInColumns k cfg doors b m rg rs
                = Some (ts, int (length ts) * chairsPerTable cfg)
           \<and> clearOfDoors (width cfg) doors ts"
proof -
  let ?I = "\<lambda>s::PackState. clearOfDoors (width cfg) doors (placed s)"
  have "\<exists>s'. tablesInColumnsLoop k cfg doors b m rg rs (packInit (minX b)) = Some s' \<and> ?I s'
          \<and> \<not> tablesInColumnsGuard k cfg b s'"
  proof (rule tablesInColumnsLoop_rule[OF sp, where I = ?I])
    fix s :: PackState assume "?I s"
    then show "?I (s\<lparr> currentX := maxDoorEndX (currentX s) (width cfg) doors
                                       + tableSpacing cfg \<rparr>)" by simp
  next
    fix s :: PackState
    assume I: "?I s" and no: "\<not> columnOverlapsDoor (currentX s) (width cfg) doors"
    let ?J = "\<lambda>r::PackState. ?I r \<and> currentX r = currentX s"
    have "?J (tablesInColumnRows cfg doors b m rg rs 0 s)"
    proof (rule tablesInColumnRows_rule[where I = ?J])
      show "?J s" using I by simp
    next
      fix r :: PackState and rowY :: real assume J: "?J r"
      then have "clearOfDoors (width cfg) doors (placed (place r rowY (chairsPerTable cfg)))"
        using no by (intro clearOfDoors_place) simp_all
      then show "?J (place r rowY (chairsPerTable cfg))"
        using J by (simp add: place_def)
    qed
    then show "?I ((tablesInColumnRows cfg doors b m rg rs 0 s)
                   \<lparr> columnsPlaced := columnsPlaced s + 1,
                     currentX := currentX s + (width cfg + columnSpacing cfg) \<rparr>)"
      by simp
  next
    show "?I (packInit (minX b))" by (simp add: packInit_def clearOfDoors_def)
  qed
  then show ?thesis
    unfolding placeTablesInColumns_def by force
qed

lemma placeTablesInColumns_returns:
  assumes "0 \<le> tableSpacing cfg"
  shows "\<exists>ts. placeTablesInColumns k cfg doors b m rg rs
                = Some (ts, int (length ts) * chairsPerTable cfg)"
  using placeTablesInColumns_clear[OF assms, of k doors b m rg rs] by blast

lemma placeChairsInColumns_bound:
  assumes sp: "case singleChair cfg of None \<Rightarrow> True | Some ch \<Rightarrow> 0 \<le> c_spacing ch"
    and mg: "0 \<le> mg"
  shows "\<exists>cs c. placeChairsInColumns n mg cfg doors b mc x0 = Some (cs, c) \<and> 0 \<le> c \<and> c \<le> mg"
proof (cases "singleChair cfg")
  case None
  then show ?thesis using mg by (simp add: placeChairsInColumns_def)
next
  case (Some ch)
  then have sp': "0 \<le> c_spacing ch" using sp by simp
  let ?I = "\<lambda>s::PackState. 0 \<le> currentGuests s \<and> currentGuests s \<le> mg"
  have "\<exists>s'. chairsInColumnsLoop n mg ch cfg doors b mc (packInit x0) = Some s' \<and> ?I s'
          \<and> \<not> chairsInColumnsGuard n mg ch b s'"
  proof (rule chairsInColumnsLoop_rule[OF sp', where I = ?I])
    fix s :: PackState assume "?I s"
    then show "?I (s\<lparr> currentX := maxDoorEndX (currentX s) (c_width ch) doors
                                       + c_spacing ch \<rparr>)" by simp
  next
    fix s :: PackState assume I: "?I s"
    have "?I (chairsInColumnRows mg ch cfg doors b mc 0 s)"
    proof (rule chairsInColumnRows_rule[where I = ?I])
      show "?I s" by (rule I)
    next
      fix r :: PackState and rowY :: real
      assume "?I r" and "currentGuests r < mg"
      then show "?I (place r rowY 1)" by (simp add: place_def)
    qed
    then show "?I ((chairsInColumnRows mg ch cfg doors b mc 0 s)
                   \<lparr> columnsPlaced := columnsPlaced s + 1,
                     currentX := currentX s + (c_width ch + c_spacing ch) \<rparr>)"
      by simp
  next
    show "?I (packInit x0)" using mg by (simp add: packInit_def)
  qed
  then show ?thesis using Some by (force simp: placeChairsInColumns_def)
qed

section \<open>Evaluation rules\<close>

lemmas tablesOnly_eval =
  placeTablesOnly_def placeTablesOnlyRun_def areaBounds_def maxTablesPerColumnOf_def
  packInit_def place_def tablesOnlyLoop.simps tablesOnlyRows.simps columnOverlapsDoor_def
  isObjectInAnyDoorArea_def rowYof_def orDefault_def Let_def

lemmas door_eval = doorMinX_def doorMaxX_def doorMinY_def doorMaxY_def columnOverlaps_def
  isObjectInDoorArea_def maxDoorEndX_def

lemmas arrangement_eval = calculateTableArrangement_def seatingResultOf_def orDefaultMode_def
  tableObjects_def chairObjects_def

lemmas columns_eval =
  placeTablesInColumns_def tablesInColumnsLoop.simps tablesInColumnRows.simps
  placeChairsInColumns_def chairsInColumnsLoop.simps chairsInColumnRows.simps
  packInit_def place_def columnOverlapsDoor_def isObjectInAnyDoorArea_def rowYof_def
  orDefault_def Let_def

lemmas smartMix_eval =
  smartMixBody_def chairStartXOf_def chairColumnsToPlaceOf_def gapLess_def
  chairMetrics_def maxChairsPerColumnOf_def rawChairsPerColumn_def roundToGroup_def jsRem_def

section \<open>Claim C1: the tie-break of the smart mix\<close>

lemma smartMixBody_step:
  assumes ok: "mixSpacingsOk cfg" and inv: "bestInv t best"
  shows "\<exists>best' stop. smartMixBody t cfg doors b m rg rs mc cw k best = Some (best', stop)
           \<and> bestInv t best' \<and> (best' = best \<or> improves best' best)"
proof -
  from ok have tsp: "0 \<le> tableSpacing cfg"
    and csp: "case singleChair cfg of None \<Rightarrow> True | Some ch \<Rightarrow> 0 \<le> c_spacing ch"
    by (simp_all add: mixSpacingsOk_def)
  from placeTablesInColumns_returns[OF tsp, of k doors b m rg rs]
  obtain ts where ts: "placeTablesInColumns k cfg doors b m rg rs
                         = Some (ts, int (length ts) * chairsPerTable cfg)" by blast
  let ?tg = "int (length ts) * chairsPerTable cfg"
  show ?thesis
  proof (cases "t - ?tg \<le> 0")
    case True
    then show ?thesis using ts inv
      by (auto simp: smartMixBody_def Let_def bestInv_def improves_def)
  next
    case rem: False
    show ?thesis
    proof (cases "singleChair cfg")
      case None
      then show ?thesis using ts rem inv by (auto simp: smartMixBody_def Let_def)
    next
      case (Some ch)
      let ?x0 = "chairStartXOf ts cfg ch b"
      let ?n = "chairColumnsToPlaceOf (t - ?tg) mc \<lfloor>(maxX b - ?x0) / cw\<rfloor>"
      show ?thesis
      proof (cases "?n > 0")
        case True
        have "0 \<le> t - ?tg" using rem by simp
        from placeChairsInColumns_bound[OF csp this, of ?n doors b mc ?x0]
        obtain cs c where c: "placeChairsInColumns ?n (t - ?tg) cfg doors b mc ?x0 = Some (cs, c)"
          "0 \<le> c" "c \<le> t - ?tg" by blast
        let ?new = "\<lparr> b_tables = ts, b_chairs = cs, b_actualGuests = ?tg + c,
                       gap = Some \<bar>?tg + c - t\<bar> \<rparr>"
        have body: "smartMixBody t cfg doors b m rg rs mc cw k best
                = Some (if gapLess \<bar>?tg + c - t\<bar> (gap best) \<or> b_actualGuests best < ?tg + c
                        then ?new else best,
                        ?tg + c \<ge> t \<and> \<bar>?tg + c - t\<bar> \<le> chairsPerTable cfg)"
          using ts rem Some True c(1) by (simp add: smartMixBody_def Let_def)
        have imp: "gapLess \<bar>?tg + c - t\<bar> (gap best)"
          if "b_actualGuests best < ?tg + c"
          using that inv c(3) by (auto simp: bestInv_def gapLess_def)
        show ?thesis unfolding body using inv imp
          by (auto simp: bestInv_def improves_def)
      next
        case False
        let ?new = "\<lparr> b_tables = ts, b_chairs = [], b_actualGuests = ?tg,
                       gap = Some \<bar>?tg - t\<bar> \<rparr>"
        have body: "smartMixBody t cfg doors b m rg rs mc cw k best
                = Some (if ?tg > b_actualGuests best then ?new else best, False)"
          using ts rem Some False by (simp add: smartMixBody_def Let_def)
        have imp: "gapLess \<bar>?tg - t\<bar> (gap best)" if "b_actualGuests best < ?tg"
          using that inv rem by (auto simp: bestInv_def gapLess_def)
        show ?thesis unfolding body using inv imp
          by (auto simp: bestInv_def improves_def)
      qed
    qed
  qed
qed

lemma improves_trans: "improves c b \<Longrightarrow> improves b a \<Longrightarrow> improves c a"
  by (auto simp: improves_def gapLess_def split: option.splits)

lemma smartMixLoop_total:
  "mixSpacingsOk cfg \<Longrightarrow> bestInv t best \<Longrightarrow>
   \<exists>r. smartMixLoop k best t cfg doors b m rg rs mc cw = Some r
      \<and> bestInv t r \<and> (r = best \<or> improves r best)"
proof (induction k best t cfg doors b m rg rs mc cw rule: smartMixLoop.induct)
  case (1 k best t cfg doors b m rg rs mc cw)
  show ?case
  proof (cases "k \<ge> 0")
    case False
    then show ?thesis using "1.prems" by (subst smartMixLoop.simps) simp
  next
    case True
    from smartMixBody_step[OF "1.prems", of doors b m rg rs mc cw k]
    obtain best' stop where body: "smartMixBody t cfg doors b m rg rs mc cw k best = Some (best', stop)"
      and inv': "bestInv t best'" and imp: "best' = best \<or> improves best' best"
      by blast
    show ?thesis
    proof (cases stop)
      case True
      then show ?thesis using \<open>k \<ge> 0\<close> body inv' imp by (subst smartMixLoop.simps) simp
    next
      case False
      from "1.IH"[OF \<open>k \<ge> 0\<close> body refl False "1.prems"(1) inv']
      obtain r where r: "smartMixLoop (k - 1) best' t cfg doors b m rg rs mc cw = Some r"
        "bestInv t r" "r = best' \<or> improves r best'" by blast
      have "r = best \<or> improves r best"
        using r(3) imp improves_trans by blast
      then show ?thesis using \<open>k \<ge> 0\<close> body False r(1,2) by (subst smartMixLoop.simps) simp
    qed
  qed
qed

lemma placeSmartMix_returns:
  assumes "mixSpacingsOk cfg"
  shows "\<exists>r. placeSmartMix t cfg doors = Some r"
proof -
  let ?b = "areaBounds cfg"
  let ?h = "maxY ?b - minY ?b"
  let ?m = "\<lfloor>?h / (height cfg + tableSpacing cfg)\<rfloor>"
  let ?k = "\<lfloor>(maxX ?b - minX ?b) / (width cfg + columnSpacing cfg)\<rfloor>"
  let ?rg = "orDefault (rowsPerGroup cfg) 999"
  let ?rs = "orDefault (rowGroupSpacing cfg) 0"
  have "bestInv t initialBest" by (simp add: bestInv_def initialBest_def)
  from smartMixLoop_total[OF assms this]
  obtain r where r: "smartMixLoop ?k initialBest t cfg doors ?b ?m ?rg ?rs
                       (fst (chairMetrics cfg ?h)) (snd (chairMetrics cfg ?h)) = Some r"
    by blast
  have "0 \<le> tableSpacing cfg" using assms by (simp add: mixSpacingsOk_def)
  from placeTablesInColumns_returns[OF this, of ?k doors ?b ?m ?rg ?rs]
  obtain ts where "placeTablesInColumns ?k cfg doors ?b ?m ?rg ?rs
                     = Some (ts, int (length ts) * chairsPerTable cfg)" by blast
  with r show ?thesis by (simp add: placeSmartMix_def Let_def)
qed

lemma tie_candidate2:
  "smartMixBody 10 tieHall [] tieBounds 1 999 0 8 6 2 initialBest
     = Some (\<lparr> b_tables = [\<lparr>p_x = 0, p_y = 0, p_index = 0\<rparr>, \<lparr>p_x = 5, p_y = 0, p_index = 1\<rparr>],
               b_chairs = [], b_actualGuests = 16, gap = Some 6 \<rparr>, False)"
  by (simp add: tieHall_def tieChair_def tieBounds_def initialBest_def smartMix_eval columns_eval)

lemma tie_candidate1:
  "smartMixBody 10 tieHall [] tieBounds 1 999 0 8 6 1 initialBest
     = Some (\<lparr> b_tables = [\<lparr>p_x = 0, p_y = 0, p_index = 0\<rparr>],
               b_chairs = [], b_actualGuests = 8, gap = Some 2 \<rparr>, False)"
  by (simp add: tieHall_def tieChair_def tieBounds_def initialBest_def smartMix_eval columns_eval)

lemma tie_candidate0:
  "smartMixBody 10 tieHall [] tieBounds 1 999 0 8 6 0 initialBest
     = Some (\<lparr> b_tables = [], b_chairs = chairColumn8, b_actualGuests = 8, gap = Some 2 \<rparr>, False)"
  by (simp add: tieHall_def tieChair_def tieBounds_def initialBest_def smartMix_eval columns_eval
      chairColumn8_def)

lemma tie_result:
  "placeSmartMix 10 tieHall []
     = Some \<lparr> b_tables = [], b_chairs = chairColumn8, b_actualGuests = 8, gap = Some 2 \<rparr>"
  by (simp add: placeSmartMix_def areaBounds_def smartMixLoop.simps
      tieHall_def tieChair_def initialBest_def smartMix_eval columns_eval chairColumn8_def)

lemma tie_step1:
  "smartMixBody 10 tieHall [] tieBounds 1 999 0 8 6 1 twoColumnsBest
     = Some (twoColumnsBest, False)"
  by (simp add: tieHall_def tieChair_def tieBounds_def twoColumnsBest_def smartMix_eval
      columns_eval)

lemma tie_step0:
  "smartMixBody 10 tieHall [] tieBounds 1 999 0 8 6 0 twoColumnsBest
     = Some (\<lparr> b_tables = [], b_chairs = chairColumn8, b_actualGuests = 8, gap = Some 2 \<rparr>, False)"
  by (simp add: tieHall_def tieChair_def tieBounds_def twoColumnsBest_def smartMix_eval
      columns_eval chairColumn8_def)

text \<open>
  Claim C1, amended. In auto mode (with non-negative spacings, so that the column loops
  return, and no zero pitch or group size to divide by) every iteration of the loop over the candidate table-column counts, taken from
  the maximum downward, either leaves the recorded best solution unchanged or replaces it
  by one of strictly smaller gap, never of equal gap; the recorded gap is always the gap
  of the recorded guest count. So among the candidates that are recorded, the one with more
  table columns wins a tie. Not every candidate with a smaller or equal gap is recorded: a
  candidate that falls short with no room for a chair column is recorded only when it
  seats more guests than the best so far.
\<close>

theorem smartMix_replaces_on_strict_improvement:
  assumes "mixSpacingsOk cfg" and "pitchesNonzero cfg" and "rg \<noteq> 0" and "cw \<noteq> 0"
  shows "bestInv t initialBest
       \<and> (\<forall>best k. bestInv t best \<longrightarrow>
             (\<exists>best' stop. smartMixBody t cfg doors b m rg rs mc cw k best = Some (best', stop)
                \<and> bestInv t best' \<and> (best' = best \<or> improves best' best)))
       \<and> (\<forall>k. \<exists>r. smartMixLoop k initialBest t cfg doors b m rg rs mc cw = Some r
                \<and> (r = initialBest \<or> improves r initialBest))
       \<and> (\<exists>r. placeSmartMix t cfg doors = Some r)"
proof (intro conjI allI impI)
  show inv0: "bestInv t initialBest" by (simp add: bestInv_def initialBest_def)
  show "\<exists>r. smartMixLoop k initialBest t cfg doors b m rg rs mc cw = Some r
          \<and> (r = initialBest \<or> improves r initialBest)" for k
    using smartMixLoop_total[OF assms(1) inv0, of k doors b m rg rs mc cw] by blast
  show "\<exists>r. placeSmartMix t cfg doors = Some r"
    by (rule placeSmartMix_returns[OF assms(1)])
next
  fix best k assume "bestInv t best"
  then show "\<exists>best' stop. smartMixBody t cfg doors b m rg rs mc cw k best = Some (best', stop)
               \<and> bestInv t best' \<and> (best' = best \<or> improves best' best)"
    by (rule smartMixBody_step[OF assms(1)])
qed

theorem smartMix_replaces_on_strict_improvement_witness:
  "mixSpacingsOk tieHall \<and> pitchesNonzero tieHall \<and> bestInv 10 twoColumnsBest
   \<and> (\<exists>best' stop. smartMixBody 10 tieHall [] tieBounds 1 999 0 8 6 1 twoColumnsBest
                       = Some (best', stop)
          \<and> bestInv 10 best' \<and> (best' = twoColumnsBest \<or> improves best' twoColumnsBest))
   \<and> (\<exists>best' stop. smartMixBody 10 tieHall [] tieBounds 1 999 0 8 6 0 twoColumnsBest
                       = Some (best', stop)
          \<and> bestInv 10 best' \<and> improves best' twoColumnsBest)"
proof -
  have ok: "mixSpacingsOk tieHall"
    by (simp add: mixSpacingsOk_def tieHall_def tieChair_def)
  have nz: "pitchesNonzero tieHall"
    by (simp add: pitchesNonzero_def tieHall_def tieChair_def orDefault_def)
  have d: "(999::int) \<noteq> 0" "(6::real) \<noteq> 0" by simp_all
  have inv: "bestInv 10 twoColumnsBest"
    by (simp add: bestInv_def twoColumnsBest_def)
  have ne: "\<lparr> b_tables = [], b_chairs = chairColumn8, b_actualGuests = 8, gap = Some 2 \<rparr>
              \<noteq> twoColumnsBest"
    by (simp add: twoColumnsBest_def)
  from smartMix_replaces_on_strict_improvement[OF ok nz d, of 10 "[]" tieBounds 1 0 8]
  have step: "\<exists>best' stop. smartMixBody 10 tieHall [] tieBounds 1 999 0 8 6 k twoColumnsBest
                  = Some (best', stop)
                \<and> bestInv 10 best' \<and> (best' = twoColumnsBest \<or> improves best' twoColumnsBest)"
    for k using inv by blast
  from step[of 0] have "bestInv 10 \<lparr> b_tables = [], b_chairs = chairColumn8,
                                      b_actualGuests = 8, gap = Some 2 \<rparr>
      \<and> improves \<lparr> b_tables = [], b_chairs = chairColumn8, b_actualGuests = 8, gap = Some 2 \<rparr>
           twoColumnsBest"
    using ne by (simp add: tie_step0)
  then show ?thesis using ok nz inv by (auto simp: tie_step0 tie_step1)
qed

text \<open>
  Claim C1, as stated, fails: for ten guests the candidates with one table column and no
  chairs, and with no table and one chair column, both have the smallest gap 2 (two table
  columns have gap 6). The packer returns the one without tables: the candidate with one
  table column falls short with no room for chairs and seats fewer guests than the 16 of
  the best so far, so it is not recorded.
\<close>

theorem smartMix_tie_counterexample:
  "placeSmartMix 10 tieHall []
     = Some \<lparr> b_tables = [], b_chairs = chairColumn8, b_actualGuests = 8, gap = Some 2 \<rparr>
   \<and> map_option (\<lambda>c. (length (b_tables (fst c)), length (b_chairs (fst c)), gap (fst c)))
        (smartMixBody 10 tieHall [] tieBounds 1 999 0 8 6 2 initialBest) = Some (2, 0, Some 6)
   \<and> map_option (\<lambda>c. (length (b_tables (fst c)), length (b_chairs (fst c)), gap (fst c)))
        (smartMixBody 10 tieHall [] tieBounds 1 999 0 8 6 1 initialBest) = Some (1, 0, Some 2)
   \<and> map_option (\<lambda>c. (length (b_tables (fst c)), length (b_chairs (fst c)), gap (fst c)))
        (smartMixBody 10 tieHall [] tieBounds 1 999 0 8 6 0 initialBest) = Some (0, 8, Some 2)"
  by (simp add: tie_result tie_candidate2 tie_candidate1 tie_candidate0 chairColumn8_def)

section \<open>Claim C2: tables-only placement fills the grid until the target\<close>













section \<open>Claim C3: columns that a door overlaps are skipped\<close>

lemma sideDoorHall_tables:
  "placeTablesOnly 100 sideDoorHall [sideDoor] = Some \<lparr> r_tables =
     [\<lparr>p_x = 0, p_y = 5, p_index = 0\<rparr>, \<lparr>p_x = 0, p_y = 10, p_index = 1\<rparr>,
      \<lparr>p_x = 0, p_y = 15, p_index = 2\<rparr>, \<lparr>p_x = 5, p_y = 0, p_index = 3\<rparr>,
      \<lparr>p_x = 5, p_y = 5, p_index = 4\<rparr>, \<lparr>p_x = 5, p_y = 10, p_index = 5\<rparr>,
      \<lparr>p_x = 5, p_y = 15, p_index = 6\<rparr>],
     r_chairs = [], actualGuests = 56 \<rparr>"
  by (simp add: sideDoorHall_def sideDoor_def tablesOnly_eval door_eval)

lemma sideDoorHall_rows: "columnRowYs sideDoorHall (areaBounds sideDoorHall) = [0, 5, 10, 15]"
  by (simp add: columnRowYs_def sideDoorHall_def areaBounds_def maxTablesPerColumnOf_def
      rowYof_def orDefault_def upt_rec)

text \<open>
  Claim C3, as stated, fails in its last part: a column that the column test does not skip
  can still lose single units to the per-unit door test, which reads the top-left corner as
  a centre. With the door left of the area the column at \<open>x = 0\<close> keeps rows 1 to 3 and
  loses row 0, so it is neither entirely present nor entirely skipped.
\<close>

theorem column_split_counterexample:
  "\<exists>r. placeTablesOnly 100 sideDoorHall [sideDoor] = Some r
       \<and> \<not> columnOverlapsDoor 0 (width sideDoorHall) [sideDoor]
       \<and> \<not> columnEntirelyPresent sideDoorHall (areaBounds sideDoorHall) 0 (r_tables r)
       \<and> \<not> columnEntirelySkipped 0 (r_tables r)"
  by (simp add: sideDoorHall_tables sideDoorHall_rows columnEntirelyPresent_def
      columnEntirelySkipped_def columnOverlapsDoor_def)
     (simp add: sideDoorHall_def sideDoor_def door_eval)

text \<open>
  Claim C3, amended. For a unit of non-negative width (and a positive column pitch and
  non-negative spacing, so that the loop returns, and a non-zero row pitch and group size
  to divide by): no table of \<open>placeTablesOnly\<close> or
  \<open>placeTablesInColumns\<close> starts at a column offset whose span \<open>[X, X + width]\<close>
  overlaps the horizontal extent of a door, and no x-origin lies strictly inside a door's
  horizontal span; at an overlapped offset the loop places nothing and continues from the
  rightmost right edge of the overlapping doors plus \<open>tableSpacing\<close>. Nothing is
  claimed about a column being complete.
\<close>

theorem column_skip_guarantee:
  assumes "0 \<le> width cfg" and "0 < width cfg + columnSpacing cfg"
    and "0 \<le> tableSpacing cfg"
    and "height cfg + tableSpacing cfg \<noteq> 0" and "rg \<noteq> 0"
  shows "(\<exists>st. placeTablesOnlyRun g cfg doors = Some st
            \<and> originOutsideDoors (width cfg) doors (placed st))
       \<and> (\<exists>ts. placeTablesInColumns k cfg doors b m rg rs
                   = Some (ts, int (length ts) * chairsPerTable cfg)
              \<and> originOutsideDoors (width cfg) doors ts)
       \<and> (\<forall>x. columnOverlapsDoor x (width cfg) doors \<longrightarrow>
              maxDoorEndX x (width cfg) doors
                = Max (doorMaxX ` overlappingDoors x (width cfg) doors))
       \<and> (\<forall>st. currentGuests st < g \<and> currentX st + width cfg \<le> maxX b
                \<and> columnOverlapsDoor (currentX st) (width cfg) doors \<longrightarrow>
              tablesOnlyLoop g cfg doors b m st
                = tablesOnlyLoop g cfg doors b m
                    (st\<lparr> currentX := maxDoorEndX (currentX st) (width cfg) doors
                                       + tableSpacing cfg \<rparr>))
       \<and> (\<forall>st. columnsPlaced st < k \<and> currentX st + width cfg \<le> maxX b
                \<and> columnOverlapsDoor (currentX st) (width cfg) doors \<longrightarrow>
              tablesInColumnsLoop k cfg doors b m rg rs st
                = tablesInColumnsLoop k cfg doors b m rg rs
                    (st\<lparr> currentX := maxDoorEndX (currentX st) (width cfg) doors
                                       + tableSpacing cfg \<rparr>))"
proof (intro conjI allI impI)
  show "\<exists>st. placeTablesOnlyRun g cfg doors = Some st
          \<and> originOutsideDoors (width cfg) doors (placed st)"
    using placeTablesOnlyRun_clear[OF assms(2) assms(3), of g doors]
      clearOfDoors_origin[OF assms(1)] by blast
next
  show "\<exists>ts. placeTablesInColumns k cfg doors b m rg rs
                = Some (ts, int (length ts) * chairsPerTable cfg)
          \<and> originOutsideDoors (width cfg) doors ts"
    using placeTablesInColumns_clear[OF assms(3), of k doors b m rg rs]
      clearOfDoors_origin[OF assms(1)] by blast
next
  fix x assume "columnOverlapsDoor x (width cfg) doors"
  then show "maxDoorEndX x (width cfg) doors
               = Max (doorMaxX ` overlappingDoors x (width cfg) doors)"
    unfolding overlappingDoors_def by (rule maxDoorEndX_Max)
next
  fix st :: PackState
  assume "currentGuests st < g \<and> currentX st + width cfg \<le> maxX b
            \<and> columnOverlapsDoor (currentX st) (width cfg) doors"
  then show "tablesOnlyLoop g cfg doors b m st
               = tablesOnlyLoop g cfg doors b m
                   (st\<lparr> currentX := maxDoorEndX (currentX st) (width cfg) doors
                                      + tableSpacing cfg \<rparr>)"
    by (subst tablesOnlyLoop.simps) simp
next
  fix st :: PackState
  assume "columnsPlaced st < k \<and> currentX st + width cfg \<le> maxX b
            \<and> columnOverlapsDoor (currentX st) (width cfg) doors"
  then show "tablesInColumnsLoop k cfg doors b m rg rs st
               = tablesInColumnsLoop k cfg doors b m rg rs
                   (st\<lparr> currentX := maxDoorEndX (currentX st) (width cfg) doors
                                      + tableSpacing cfg \<rparr>)"
    by (subst tablesInColumnsLoop.simps) simp
qed

lemma doorHall_tables:
  "placeTablesOnly 100 doorHall [topDoor] = Some \<lparr> r_tables =
     [\<lparr>p_x = 0, p_y = 0, p_index = 0\<rparr>, \<lparr>p_x = 0, p_y = 10, p_index = 1\<rparr>,
      \<lparr>p_x = 20, p_y = 0, p_index = 2\<rparr>, \<lparr>p_x = 20, p_y = 10, p_index = 3\<rparr>,
      \<lparr>p_x = 30, p_y = 0, p_index = 4\<rparr>, \<lparr>p_x = 30, p_y = 10, p_index = 5\<rparr>],
     r_chairs = [], actualGuests = 48 \<rparr>"
  by (simp add: doorHall_def topDoor_def tablesOnly_eval door_eval)

theorem column_skip_guarantee_witness:
  "(\<exists>st. placeTablesOnlyRun 100 doorHall [topDoor] = Some st
        \<and> originOutsideDoors (width doorHall) [topDoor] (placed st))
   \<and> map_option (map p_x \<circ> r_tables) (placeTablesOnly 100 doorHall [topDoor])
        = Some [0, 0, 20, 20, 30, 30]
   \<and> columnOverlapsDoor 10 (width doorHall) [topDoor]
   \<and> maxDoorEndX 10 (width doorHall) [topDoor]
        = Max (doorMaxX ` overlappingDoors 10 (width doorHall) [topDoor])
   \<and> maxDoorEndX 10 (width doorHall) [topDoor] + tableSpacing doorHall = 20"
proof -
  have h: "0 \<le> width doorHall" "0 < width doorHall + columnSpacing doorHall"
    "0 \<le> tableSpacing doorHall" "height doorHall + tableSpacing doorHall \<noteq> 0"
    by (simp_all add: doorHall_def)
  have rg: "(999::int) \<noteq> 0" by simp
  have ov: "columnOverlapsDoor 10 (width doorHall) [topDoor]"
    by (simp add: columnOverlapsDoor_def doorHall_def topDoor_def door_eval)
  have e: "maxDoorEndX 10 (width doorHall) [topDoor] + tableSpacing doorHall = 20"
    by (simp add: doorHall_def topDoor_def door_eval)
  show ?thesis
    using column_skip_guarantee[OF h rg, of 100 "[topDoor]"] ov e
    by (simp add: doorHall_tables)
qed

section \<open>Claim C4: placed units and door clearance\<close>

text \<open>
  Claim C4 on the code. The packer hands the top-left corner \<open>(currentX, rowY)\<close> of a
  unit to \<open>isObjectInDoorArea\<close>, which reads it as the centre; nothing converts it.
  With a door right of a 10 by 10 area (span \<open>[12, 20]\<close>, clearance 5, expanded box
  \<open>[7, 25] \<times> [-5, 15]\<close>) the table at \<open>(0, 0)\<close> is returned although its footprint
  \<open>[0, 10] \<times> [0, 10]\<close> overlaps the expanded box.
\<close>

theorem placed_table_overlaps_door_clearance:
  "\<exists>arr. calculateTableArrangement 8 clearanceHall [clearanceDoor]
           = Some ([\<lparr> h_type = Table, h_x = 0, h_y = 0, h_width = 10, h_height = 10,
                      h_tableIndex = 0, h_rotation = 0 \<rparr>], arr)
        \<and> footprintOverlapsDoor \<lparr> h_type = Table, h_x = 0, h_y = 0, h_width = 10, h_height = 10,
                      h_tableIndex = 0, h_rotation = 0 \<rparr> clearanceDoor
        \<and> getDoorAreaBounds clearanceDoor = \<lparr> minX = 7, maxX = 25, minY = -5, maxY = 15 \<rparr>"
  by (simp add: arrangement_eval clearanceHall_def clearanceDoor_def tablesOnly_eval door_eval
      footprintOverlapsDoor_def getDoorAreaBounds_def)

section \<open>Claim C5: units and the area polygon\<close>

text \<open>
  The position loops of \<open>calculateTablePositionsInPolygon\<close> only ever add a position
  whose four corners are inside the polygon.
\<close>

lemma polygonRows_inside:
  assumes "\<forall>p \<in> set (fst st). cornersInside (width cfg) (height cfg) poly p"
  shows "\<forall>p \<in> set (fst (polygonRows cfg poly b n m x row st)).
           cornersInside (width cfg) (height cfg) poly p"
  using assms
proof (induction cfg poly b n m x row st rule: polygonRows.induct)
  case (1 cfg poly b n m x row ps i)
  let ?P = "\<lambda>st. \<forall>p \<in> set (fst st). cornersInside (width cfg) (height cfg) poly p"
  show ?case
  proof (cases "row < m \<and> i < n")
    case True
    let ?y = "rowYof b (height cfg + tableSpacing cfg) (orDefault (rowsPerGroup cfg) 999)
                (orDefault (rowGroupSpacing cfg) 0) row"
    let ?cs = "[\<lparr> pt_x = x, pt_y = ?y \<rparr>, \<lparr> pt_x = x + width cfg, pt_y = ?y \<rparr>,
                \<lparr> pt_x = x, pt_y = ?y + height cfg \<rparr>,
                \<lparr> pt_x = x + width cfg, pt_y = ?y + height cfg \<rparr>]"
    let ?st = "if x + width cfg \<le> maxX b \<and> ?y + height cfg \<le> maxY b
                  \<and> list_all (\<lambda>corner. isPointInPolygon corner poly) ?cs
               then (ps @ [\<lparr> p_x = x, p_y = ?y, p_index = i \<rparr>], i + 1) else (ps, i)"
    have step: "polygonRows cfg poly b n m x row (ps, i)
                  = polygonRows cfg poly b n m x (row + 1) ?st"
      using True by (subst polygonRows.simps) (simp add: Let_def)
    have "?P ?st"
      using "1.prems" by (auto simp: cornersInside_def allCornersInside_def)
    from "1.IH"[OF True refl refl refl this] show ?thesis
      by (simp only: step)
  next
    case False
    then show ?thesis using "1.prems" by (subst polygonRows.simps) auto
  qed
qed

lemma polygonColumns_inside:
  assumes "\<forall>p \<in> set (fst st). cornersInside (width cfg) (height cfg) poly p"
  shows "\<forall>p \<in> set (fst (polygonColumns cfg poly b n m a col st)).
           cornersInside (width cfg) (height cfg) poly p"
  using assms
proof (induction cfg poly b n m a col st rule: polygonColumns.induct)
  case (1 cfg poly b n m a col ps i)
  show ?case
  proof (cases "col < a \<and> i < n")
    case True
    let ?x = "minX b + real_of_int col * (width cfg + columnSpacing cfg)"
    have step: "polygonColumns cfg poly b n m a col (ps, i)
                  = polygonColumns cfg poly b n m a (col + 1)
                      (polygonRows cfg poly b n m ?x 0 (ps, i))"
      using True by (subst polygonColumns.simps) (simp add: Let_def)
    from "1.IH"[OF True refl polygonRows_inside[OF "1.prems"]] show ?thesis
      by (simp only: step)
  next
    case False
    then show ?thesis using "1.prems" by (subst polygonColumns.simps) auto
  qed
qed

text \<open>
  So the venue configuration module does what claim C5 says: every position it returns
  has all four corners of the table inside the four-point polygon.
\<close>

lemma polygon_path_keeps_corners_inside:
  "namedPoints cfg = Some pts \<Longrightarrow> p \<in> set (calculateTablePositionsInPolygon cfg n) \<Longrightarrow>
     cornersInside (width cfg) (height cfg) (convertTableAreaToArray pts) p"
  unfolding calculateTablePositionsInPolygon_def
  using polygonColumns_inside[of "([], 0)" cfg "convertTableAreaToArray pts"]
  by (simp add: Let_def)

text \<open>
  On the trapezoid \<open>(0,0), (10,0), (10,10), (6,10)\<close> it keeps the one table at
  \<open>(5, 0)\<close> of the four that the bounding box admits.
\<close>

lemma trapezoid_polygon_path:
  "calculateTablePositionsInPolygon trapezoidHall 32
     = [\<lparr>p_x = 5, p_y = 0, p_index = 0\<rparr>]"
  by (simp add: calculateTablePositionsInPolygon_def trapezoidHall_def trapezoid_def
      convertTableAreaToArray_def actualColumnsOf_def rowYof_def
      orDefault_def isPointInPolygon_def crossesEdge_def polygonColumns.simps polygonRows.simps)

text \<open>
  Claim C5 on the code. The table calculator reads a four-point area only through its
  bounding box; no point-in-polygon test is made. For the trapezoid
  \<open>(0,0), (10,0), (10,10), (6,10)\<close> it returns the table at \<open>(0, 5)\<close>, whose bottom-left
  corner \<open>(0, 9)\<close> is outside the polygon.
\<close>

theorem placed_table_outside_polygon:
  "\<exists>arr. calculateTableArrangement 32 trapezoidHall []
           = Some (map (\<lambda>(x, y, i). \<lparr> h_type = Table, h_x = x, h_y = y, h_width = 4,
                                      h_height = 4, h_tableIndex = i, h_rotation = 0 \<rparr>)
                     [(0, 0, 0), (0, 5, 1), (5, 0, 2), (5, 5, 3)], arr)
        \<and> \<not> allCornersInside \<lparr> h_type = Table, h_x = 0, h_y = 5, h_width = 4, h_height = 4,
                      h_tableIndex = 1, h_rotation = 0 \<rparr> (convertTableAreaToArray trapezoid)
        \<and> \<not> isPointInPolygon \<lparr> pt_x = 0, pt_y = 9 \<rparr> (convertTableAreaToArray trapezoid)"
  by (simp add: arrangement_eval tablesOnly_eval trapezoidHall_def trapezoid_def
      allCornersInside_def isPointInPolygon_def convertTableAreaToArray_def crossesEdge_def)

section \<open>Claim C6: nested block references\<close>





text \<open>The extra factor is 50 for the named figures, wherever the name holds them, else 1.\<close>

lemma extraScaleOf_named:
  "extraScaleOf ''female_model_02'' = 50" "extraScaleOf ''a_camera_man'' = 50"
  "extraScaleOf ''TV_CAMERAMAN_PL'' = 50" "extraScaleOf ''B'' = 1" "extraScaleOf ''camera'' = 1"
  by (simp_all add: extraScaleOf_def)







section \<open>Claim C7: a zero bulge\<close>

text \<open>
  Claim C7. With bulge 0 the interpolation returns exactly the two end points, in order
  and with no sample in between (a missing \<open>z\<close> reads as 0), for any two vertices and
  any segment count.
\<close>

theorem zero_bulge_is_straight_segment:
  "interpolateBulgePoints v1 v2 0 segments
     = [\<lparr> v3_x = dp_x v1, v3_y = dp_y v1, v3_z = orDefault (dp_z v1) 0 \<rparr>,
        \<lparr> v3_x = dp_x v2, v3_y = dp_y v2, v3_z = orDefault (dp_z v2) 0 \<rparr>]"
  by (simp add: interpolateBulgePoints_def)

section \<open>Claim C8: the stage-relative area\<close>





section \<open>Claim C9: unresolved block references\<close>

lemma map_of_pushNumbers:
  "map_of (pushNumbers color ns bs) k
     = (if k = color then Some ((case map_of bs color of None \<Rightarrow> [] | Some v \<Rightarrow> v) @ ns)
        else map_of bs k)"
  by (induction bs) auto

lemma batchOf_addLine:
  "batchOf k (addLine color x1 y1 x2 y2 st)
     = (if k = color then batchOf k st @ [x1, y1, 0, x2, y2, 0] else batchOf k st)"
  by (simp add: batchOf_def addLine_def map_of_pushNumbers)

lemma batchOf_updateLayerBounds [simp]:
  "batchOf k (updateLayerBounds layer points st) = batchOf k st"
  by (simp add: batchOf_def updateLayerBounds_def)

lemma createPlaceholder_batch:
  "batchOf k (createPlaceholder position color st)
     = (if k = color
        then batchOf k st @ crossMark (fst (transformPoint position (centerX st) (centerY st)))
                                (snd (transformPoint position (centerX st) (centerY st))) 50
        else batchOf k st)"
  by (simp add: createPlaceholder_def batchOf_addLine crossMark_def Let_def)

lemma centerX_updateLayerBounds [simp]:
  "centerX (updateLayerBounds layer points st) = centerX st"
  "centerY (updateLayerBounds layer points st) = centerY st"
  by (simp_all add: updateLayerBounds_def)

lemma epProcessInsert_unresolved:
  assumes "e_position entity = Some position" and "blockUnresolved dxf (e_name entity)"
  shows "epProcessInsert expand entity dxf color layer st
           = createPlaceholder position color (updateLayerBounds layer [position] st)"
  using assms
  by (auto simp: epProcessInsert_def blockUnresolved_def Let_def split: option.splits)

lemma simple_insert_unresolved:
  assumes "e_type entity = ''INSERT''" and "blockUnresolved dxf (e_name entity)"
  shows "processEntity (Suc fuel) dxf ign transform entity result = Some result"
  using assms
  by (auto simp: blockUnresolved_def lookupBlockByName_def lookupBlock_def
      split: option.splits)

text \<open>
  Claim C9, as stated, fails for the simple extractor: an INSERT whose block is not in
  the table is skipped by the guard \<open>if (!block || !block.entities) return\<close>, so no
  placeholder is emitted; the next entity is still processed.
\<close>

theorem simple_extractor_emits_no_placeholder:
  "e_type ghostInsert = ''INSERT'' \<and> blockUnresolved ghostDoc (e_name ghostInsert)
   \<and> processEntity 1 ghostDoc False None ghostInsert [] = Some []
   \<and> extractEntities 1 ghostDoc False
       = Some [emit ''LINE'' [\<lparr> dp_x = 0, dp_y = 0, dp_z = None \<rparr>,
                               \<lparr> dp_x = 1, dp_y = 0, dp_z = None \<rparr>] unitLine]"
  by (simp add: ghostInsert_def ghostDoc_def blankEntity_def blockUnresolved_def
      lookupBlockByName_def lookupBlock_def extractEntities_def unitLine_def processLine_def
      applyTransform_def emit_def)

text \<open>
  Claim C9, amended. For every INSERT that has an insertion point and whose block is not
  in the block table, or has no or an empty entity list: the entity processor of the
  advanced renderer adds to the batch of the entity's colour the two arms of a cross of
  half-length 50 centred at the insertion point (taken relative to the drawing centre and
  rounded to eight decimals), changes no other batch and returns; the simple extractor
  emits nothing for it and goes on with the remaining entities. Neither throws.
\<close>

theorem unresolved_insert_placeholder:
  assumes "e_type entity = ''INSERT''" and "e_position entity = Some position"
    and "blockUnresolved dxf (e_name entity)"
  shows "batchOf color (epProcessInsert expand entity dxf color layer st)
           = batchOf color st
             @ crossMark (fst (transformPoint position (centerX st) (centerY st)))
                 (snd (transformPoint position (centerX st) (centerY st))) 50
       \<and> (\<forall>k. k \<noteq> color \<longrightarrow>
              batchOf k (epProcessInsert expand entity dxf color layer st) = batchOf k st)
       \<and> processEntity (Suc fuel) dxf ign transform entity result = Some result
       \<and> processBlockEntities (Suc fuel) dxf ign transform (entity # rest) result
           = processBlockEntities (Suc fuel) dxf ign transform rest result"
proof (intro conjI allI impI)
  show "batchOf color (epProcessInsert expand entity dxf color layer st)
           = batchOf color st
             @ crossMark (fst (transformPoint position (centerX st) (centerY st)))
                 (snd (transformPoint position (centerX st) (centerY st))) 50"
    by (simp add: epProcessInsert_unresolved[OF assms(2,3)] createPlaceholder_batch)
next
  fix k assume "k \<noteq> color"
  then show "batchOf k (epProcessInsert expand entity dxf color layer st) = batchOf k st"
    by (simp add: epProcessInsert_unresolved[OF assms(2,3)] createPlaceholder_batch)
next
  show one: "processEntity (Suc fuel) dxf ign transform entity result = Some result"
    by (rule simple_insert_unresolved[OF assms(1,3)])
  show "processBlockEntities (Suc fuel) dxf ign transform (entity # rest) result
          = processBlockEntities (Suc fuel) dxf ign transform rest result"
    using one by (simp del: processEntity.simps)
qed

theorem unresolved_insert_placeholder_witness:
  "batchOf ''#ff0000''
     (epProcessInsert (\<lambda>entity blockEntities st. st) ghostInsert ghostDoc ''#ff0000'' ''0''
        freshProcessor)
     = [-30, 30, 0, 70, 30, 0, 20, -20, 0, 20, 80, 0]
   \<and> batchOf ''#000000''
       (epProcessInsert (\<lambda>entity blockEntities st. st) ghostInsert ghostDoc ''#ff0000'' ''0''
          freshProcessor)
     = []
   \<and> processEntity 1 ghostDoc False None ghostInsert [] = Some []"
proof -
  have h: "e_type ghostInsert = ''INSERT''"
    "e_position ghostInsert = Some \<lparr> dp_x = 120, dp_y = 80, dp_z = None \<rparr>"
    "blockUnresolved ghostDoc (e_name ghostInsert)"
    by (simp_all add: ghostInsert_def ghostDoc_def blankEntity_def blockUnresolved_def
        lookupBlockByName_def)
  have p: "transformPoint \<lparr> dp_x = 120, dp_y = 80, dp_z = None \<rparr> 100 50 = (20, 30)"
    by (simp add: transformPoint_def toPrecise_def)
  have c: "centerX freshProcessor = 100" "centerY freshProcessor = 50"
    "batchOf k freshProcessor = []" for k
    by (simp_all add: freshProcessor_def batchOf_def)
  show ?thesis
    using unresolved_insert_placeholder[OF h, where color = "''#ff0000''"
        and expand = "\<lambda>entity blockEntities st. st" and layer = "''0''"
        and st = freshProcessor and fuel = 0 and ign = False and transform = None
        and result = "[]" and rest = "[]"]
    by (simp add: p c crossMark_def)
qed

section \<open>Claim C10: chair columns and row groups\<close>

lemma jsRem_zero_iff: "b \<noteq> 0 \<Longrightarrow> jsRem a b = 0 \<longleftrightarrow> b dvd a"
  by (auto simp: jsRem_def sgn_if mod_eq_0_iff_dvd)

lemma floor_div_int: "\<lfloor>real_of_int a / real_of_int b\<rfloor> = a div b"
  by (simp add: floor_divide_of_int_eq)

lemma roundToGroup_dvd: "g \<noteq> 0 \<Longrightarrow> g dvd roundToGroup n g"
  by (simp add: roundToGroup_def jsRem_zero_iff)

lemma roundToGroup_le: "0 < g \<Longrightarrow> roundToGroup n g \<le> n"
proof -
  assume g: "0 < g"
  have "n div g * g \<le> n"
    using g by (metis mult.commute pos_mod_sign add_increasing2 mult_div_mod_eq order_refl
        add.commute)
  then show ?thesis by (simp add: roundToGroup_def floor_div_int)
qed

lemma orDefault_nonzero: "d \<noteq> 0 \<Longrightarrow> orDefault v d \<noteq> 0"
  by (simp add: orDefault_def split: option.splits)

lemma maxChairsPerColumnOf_whole_groups:
  "orDefault (c_rowsPerGroup chair) 999 dvd maxChairsPerColumnOf chair cfg h"
  unfolding maxChairsPerColumnOf_def by (rule roundToGroup_dvd) (simp add: orDefault_nonzero)

lemma maxChairsPerColumnOf_le_raw:
  "0 < orDefault (c_rowsPerGroup chair) 999 \<Longrightarrow>
   maxChairsPerColumnOf chair cfg h \<le> rawChairsPerColumn chair cfg h"
  unfolding maxChairsPerColumnOf_def by (rule roundToGroup_le)

lemma groupedHall_raw: "rawChairsPerColumn groupedChair groupedHall 300 = 23"
  by (simp add: rawChairsPerColumn_def groupedChair_def groupedHall_def orDefault_def Let_def)

text \<open>
  Claim C10 on the code. \<open>placeChairsOnly\<close>, \<open>placeSmartMix\<close> and
  \<open>calculateSingleChairPositions\<close> cut the column maximum back to a multiple of the
  chair's \<open>rowsPerGroup\<close> (lemma \<open>maxChairsPerColumnOf_whole_groups\<close>). The capacity
  estimate of \<open>calculateSmartSeating\<close> does not: it multiplies the unrounded maximum by
  the number of columns and rounds by the table's \<open>rowsPerGroup\<close>. With groups of 16
  chair rows, groups of 4 table rows and room for 23 chair rows it counts 230 chairs and
  allows 20 rows per column, where the other paths allow 16.
\<close>

theorem smartSeating_capacity_rounds_by_table_group:
  "smartSeatingChairCapacity groupedHall 100 300 = (230, 20)
   \<and> \<not> orDefault (c_rowsPerGroup groupedChair) 999 dvd snd (smartSeatingChairCapacity groupedHall 100 300)
   \<and> maxChairsPerColumnOf groupedChair groupedHall 300 = 16"
  by (simp add: smartSeatingChairCapacity_def maxChairsPerColumnOf_def rawChairsPerColumn_def
      roundToGroup_def jsRem_def groupedHall_def groupedChair_def orDefault_def Let_def)

end
